theory Spec2Isabelle
  imports Complex_Main "HOL-Library.Word"
begin

section \<open>Python values, exceptions and the JSON boundary\<close>

text \<open>
  The client (\<^verbatim>\<open>src/client.py\<close>) inspects its control messages as Python dictionaries
  obtained from \<^verbatim>\<open>json.loads\<close>.  A Python value is a \<open>pyval\<close>; \<open>PObject r\<close> stands
  for any object that \<^verbatim>\<open>json.dumps\<close> rejects, \<open>r\<close> being its \<^verbatim>\<open>str()\<close>.  JSON numbers
  are integers here (floating point numbers are not modelled).  A dict is an association
  list; its keys are unique, so lookup is \<open>map_of\<close>.
\<close>

type_synonym bytes = "8 word list"

datatype pyval =
    PNone
  | PBool bool
  | PInt int
  | PStr string
  | PList "pyval list"
  | PDict "(string \<times> pyval) list"
  | PObject string

text \<open>An exception is its class name and the text \<^verbatim>\<open>str(e)\<close>.  Every exception of the
  model is a subclass of \<^verbatim>\<open>Exception\<close>, which is what \<^verbatim>\<open>except Exception\<close> catches.
  Where library code raises, the text is CPython's when it is short and fixed, and a
  shortened one otherwise (for \<^verbatim>\<open>json.dumps\<close>, \<^verbatim>\<open>json.loads\<close> and the transport).\<close>

datatype exn = Exn (exn_class: string) (exn_str: string)

definition quote :: "string \<Rightarrow> string" where
  "quote k = CHR 0x27 # k @ [CHR 0x27]"

fun type_name :: "pyval \<Rightarrow> string" where
  "type_name PNone = ''NoneType''"
| "type_name (PBool _) = ''bool''"
| "type_name (PInt _) = ''int''"
| "type_name (PStr _) = ''str''"
| "type_name (PList _) = ''list''"
| "type_name (PDict _) = ''dict''"
| "type_name (PObject _) = ''object''"

text \<open>\<^verbatim>\<open>d.get(k, default)\<close>: only a dict has the method.\<close>

definition py_get :: "pyval \<Rightarrow> string \<Rightarrow> pyval \<Rightarrow> exn + pyval" where
  "py_get d k dflt =
     (case d of
        PDict kvs \<Rightarrow> Inr (case map_of kvs k of Some v \<Rightarrow> v | None \<Rightarrow> dflt)
      | _ \<Rightarrow> Inl (Exn ''AttributeError''
                 (quote (type_name d) @ '' object has no attribute '' @ quote ''get'')))"

text \<open>\<^verbatim>\<open>d[k]\<close> with a string key: \<^verbatim>\<open>KeyError\<close> on a dict without the key,
  \<^verbatim>\<open>TypeError\<close> on everything that is not a dict.\<close>

definition py_getitem :: "pyval \<Rightarrow> string \<Rightarrow> exn + pyval" where
  "py_getitem d k =
     (case d of
        PDict kvs \<Rightarrow>
          (case map_of kvs k of Some v \<Rightarrow> Inr v | None \<Rightarrow> Inl (Exn ''KeyError'' (quote k)))
      | PStr _ \<Rightarrow> Inl (Exn ''TypeError'' ''string indices must be integers'')
      | PList _ \<Rightarrow> Inl (Exn ''TypeError'' ''list indices must be integers or slices, not str'')
      | _ \<Rightarrow> Inl (Exn ''TypeError'' (quote (type_name d) @ '' object is not subscriptable'')))"

text \<open>Python's \<^verbatim>\<open>==\<close> on values: \<^verbatim>\<open>True == 1\<close>, lists compare elementwise, dicts key by
  key whatever the order of insertion.\<close>

fun py_eq :: "pyval \<Rightarrow> pyval \<Rightarrow> bool" where
  "py_eq PNone PNone = True"
| "py_eq (PBool a) (PBool b) = (a = b)"
| "py_eq (PBool a) (PInt j) = (j = (if a then 1 else 0))"
| "py_eq (PInt i) (PBool b) = (i = (if b then 1 else 0))"
| "py_eq (PInt i) (PInt j) = (i = j)"
| "py_eq (PStr a) (PStr b) = (a = b)"
| "py_eq (PList xs) (PList ys) = list_all2 py_eq xs ys"
| "py_eq (PDict a) (PDict b) =
     (length a = length b \<and>
      list_all (\<lambda>kv. case map_of b (fst kv) of None \<Rightarrow> False | Some w \<Rightarrow> py_eq (snd kv) w) a)"
| "py_eq (PObject a) (PObject b) = (a = b)"
| "py_eq _ _ = False"

text \<open>What \<^verbatim>\<open>json.dumps\<close> accepts.\<close>

fun serializable :: "pyval \<Rightarrow> bool" where
  "serializable (PObject _) = False"
| "serializable (PList xs) = list_all serializable xs"
| "serializable (PDict kvs) = list_all (\<lambda>kv. serializable (snd kv)) kvs"
| "serializable _ = True"

text \<open>\<^verbatim>\<open>str()\<close> of an integer.\<close>

fun str_nat :: "nat \<Rightarrow> string" where
  "str_nat n =
     (if n < 10 then [char_of (48 + n)] else str_nat (n div 10) @ [char_of (48 + n mod 10)])"

declare str_nat.simps [simp del]

definition str_int :: "int \<Rightarrow> string" where
  "str_int i = (if i < 0 then CHR ''-'' # str_nat (nat (- i)) else str_nat (nat i))"

section \<open>The session state and its environment\<close>

text \<open>An inbound transport message is a text frame (\<^verbatim>\<open>str\<close>) or a binary frame
  (\<^verbatim>\<open>bytes\<close>).\<close>

datatype inbound = InText string | InBytes bytes

text \<open>The records the logger receives, one constructor per format string of the source;
  the formatted values are kept as values.\<close>

datatype log_entry =
    Error_NoKey
  | Error_Connect exn
  | Error_AudioCallback exn
  | Error_Microphone exn
  | Error_Run exn
  | Info_Server string
  | Info_LatencyChain real
  | Info_LatencyInitial real
  | Info_FunctionCallReceived pyval
  | Info_Parameters pyval
  | Info_ExecutionLatency real
  | Info_ResponseSent pyval
  | Error_ExecutingFunction string
  | Info_SessionId pyval
  | Info_Closing
  | Info_SendingClose
  | Info_Inject string
  | Error_WsClosure exn
  | Error_Receiver exn

text \<open>Everything the client does to the outside, in the order in which it does it.\<close>

datatype event =
    Log log_entry
  | Connected string
  | Sent string
  | Recv inbound
  | Emit pyval
  | Slept real
  | WsClose "nat option"
  | MicrophoneStarted
  | TaskStarted string
  | Cleanup

text \<open>The playback sink, class \<^verbatim>\<open>Speaker\<close>.  A field is \<open>None\<close> where the attribute is
  \<^verbatim>\<open>None\<close>.  \<open>sp_queue\<close> holds the frames of the janus queue (both of its views),
  \<open>sp_stream\<close> the frames written to the output stream so far, \<open>sp_thread\<close> whether the
  playback thread is running, \<open>sp_stop\<close> whether the stop event is set.\<close>

record speaker_state =
  sp_queue :: "bytes list option"
  sp_stream :: "bytes list option"
  sp_thread :: "bool option"
  sp_stop :: "bool option"

text \<open>A capability handler of the registry \<^verbatim>\<open>FUNCTION_MAP\<close> (module
  \<^verbatim>\<open>common.agent_functions\<close>, not part of the sources): what it returns or raises on
  the parameters.  A handler that is handed the transport is taken not to send on it.\<close>

type_synonym handler = "pyval \<Rightarrow> exn + pyval"

text \<open>
  What the client takes from outside.  \<open>json_text\<close> is the text \<^verbatim>\<open>json.dumps\<close> produces
  for a value it accepts, \<open>json_parse\<close> is \<^verbatim>\<open>json.loads\<close> (\<open>None\<close>: \<^verbatim>\<open>JSONDecodeError\<close>),
  \<open>clock\<close> gives the successive readings of \<^verbatim>\<open>time.time()\<close>, \<open>send_ok n\<close> tells whether
  the transport accepts the \<open>n\<close>-th \<^verbatim>\<open>ws.send\<close> (otherwise it raises), \<open>close_ok\<close> whether
  the peer closes the connection normally, \<open>close_result\<close> the exception of the bounded
  close if any, \<open>api_key\<close> the variable \<^verbatim>\<open>DEEPGRAM_API_KEY\<close>, and the remaining fields
  the exception, if any, of connecting, of opening the output stream and of starting
  the microphone.  \<open>PROMPT_TEMPLATE\<close> has no replacement field in the source, so that
  \<^verbatim>\<open>PROMPT_TEMPLATE.format(...)\<close> returns it unchanged.
\<close>

record env =
  FUNCTION_MAP :: "string \<Rightarrow> handler option"
  FUNCTION_DEFINITIONS :: pyval
  PROMPT_TEMPLATE :: string
  json_text :: "pyval \<Rightarrow> string"
  json_parse :: "string \<Rightarrow> pyval option"
  clock :: "nat \<Rightarrow> real"
  send_ok :: "nat \<Rightarrow> bool"
  close_ok :: bool
  close_result :: "exn option"
  api_key :: "string option"
  connect_result :: "exn option"
  audio_open_result :: "exn option"
  microphone_result :: "exn option"

text \<open>
  The state of a \<^verbatim>\<open>VoiceAgent\<close> with the local variables of its receiver.
  \<open>pending_puts\<close> are the frames whose \<^verbatim>\<open>mic_audio_queue.put\<close> is scheduled on the event
  loop and has not run yet; \<open>loop\<close> is \<open>None\<close> or \<open>Some c\<close>, \<open>c\<close> telling whether the loop
  is closed; \<open>ws\<close> tells whether \<^verbatim>\<open>self.ws\<close> is set; \<open>inbox\<close> are the messages the
  transport will still deliver, in order, before the connection closes; \<open>sends\<close> counts
  the calls of \<^verbatim>\<open>ws.send\<close> and \<open>ticks\<close> those of \<^verbatim>\<open>time.time()\<close>.
\<close>

record agent =
  mic_audio_queue :: "bytes list"
  pending_puts :: "bytes list"
  speaker :: speaker_state
  ws :: bool
  is_running :: bool
  loop :: "bool option"
  inbox :: "inbound list"
  sends :: nat
  ticks :: nat
  trace :: "event list"
  last_user_message :: "real option"
  last_function_response_time :: "real option"
  in_function_chain :: bool

subsection \<open>Actions: state passing with exceptions\<close>

type_synonym 'a act = "agent \<Rightarrow> (exn + 'a) \<times> agent"

definition ret :: "'a \<Rightarrow> 'a act" where
  "ret x = (\<lambda>s. (Inr x, s))"

definition throw :: "exn \<Rightarrow> 'a act" where
  "throw e = (\<lambda>s. (Inl e, s))"

definition lift :: "exn + 'a \<Rightarrow> 'a act" where
  "lift r = (\<lambda>s. (r, s))"

definition upd :: "(agent \<Rightarrow> agent) \<Rightarrow> unit act" where
  "upd f = (\<lambda>s. (Inr (), f s))"

definition bnd :: "'a act \<Rightarrow> ('a \<Rightarrow> 'b act) \<Rightarrow> 'b act" where
  "bnd m f = (\<lambda>s. case m s of (Inl e, s') \<Rightarrow> (Inl e, s') | (Inr x, s') \<Rightarrow> f x s')"

definition nxt :: "unit act \<Rightarrow> 'b act \<Rightarrow> 'b act" where
  "nxt m k = bnd m (\<lambda>_. k)"

text \<open>\<^verbatim>\<open>try: m except Exception as e: h\<close> and \<^verbatim>\<open>try: m finally: fin\<close>.\<close>

definition try_except :: "'a act \<Rightarrow> (exn \<Rightarrow> 'a act) \<Rightarrow> 'a act" where
  "try_except m h = (\<lambda>s. case m s of (Inl e, s') \<Rightarrow> h e s' | (Inr x, s') \<Rightarrow> (Inr x, s'))"

definition try_finally :: "'a act \<Rightarrow> unit act \<Rightarrow> 'a act" where
  "try_finally m fin =
     (\<lambda>s. case m s of (r, s') \<Rightarrow>
        (case fin s' of (Inl e, s'') \<Rightarrow> (Inl e, s'') | (Inr _, s'') \<Rightarrow> (r, s'')))"

definition emit :: "event \<Rightarrow> unit act" where
  "emit ev = upd (\<lambda>s. s\<lparr>trace := trace s @ [ev]\<rparr>)"

definition logger :: "log_entry \<Rightarrow> unit act" where
  "logger e = emit (Log e)"

definition time_time :: "env \<Rightarrow> real act" where
  "time_time E = (\<lambda>s. (Inr (clock E (ticks s)), s\<lparr>ticks := Suc (ticks s)\<rparr>))"

definition json_dumps :: "env \<Rightarrow> pyval \<Rightarrow> exn + string" where
  "json_dumps E v =
     (if serializable v then Inr (json_text E v)
      else Inl (Exn ''TypeError'' ''Object is not JSON serializable''))"

definition json_loads :: "env \<Rightarrow> string \<Rightarrow> exn + pyval" where
  "json_loads E t =
     (case json_parse E t of
        None \<Rightarrow> Inl (Exn ''JSONDecodeError'' ''Expecting value'')
      | Some v \<Rightarrow> Inr v)"

text \<open>\<^verbatim>\<open>ws.send\<close> and \<^verbatim>\<open>ws.recv\<close>.\<close>

definition ws_send :: "env \<Rightarrow> string \<Rightarrow> unit act" where
  "ws_send E data =
     (\<lambda>s. if send_ok E (sends s)
           then (Inr (), s\<lparr>sends := Suc (sends s), trace := trace s @ [Sent data]\<rparr>)
           else (Inl (Exn ''ConnectionClosed'' ''no close frame received or sent''),
                 s\<lparr>sends := Suc (sends s)\<rparr>))"

definition ws_recv :: "inbound act" where
  "ws_recv =
     (\<lambda>s. case inbox s of
             [] \<Rightarrow> (Inl (Exn ''ConnectionClosed'' ''no close frame received or sent''), s)
           | m # ms \<Rightarrow> (Inr m, s\<lparr>inbox := ms, trace := trace s @ [Recv m]\<rparr>))"

section \<open>The playback sink: class Speaker and the thread \<^verbatim>\<open>_play\<close>\<close>

definition Speaker_init :: speaker_state where
  "Speaker_init = \<lparr>sp_queue = None, sp_stream = None, sp_thread = None, sp_stop = None\<rparr>"

text \<open>\<^verbatim>\<open>__enter__\<close>: open the output stream, create the queue and the stop event, start
  the thread.\<close>

definition Speaker_enter :: "env \<Rightarrow> unit act" where
  "Speaker_enter E =
     (case audio_open_result E of
        Some e \<Rightarrow> throw e
      | None \<Rightarrow>
          upd (\<lambda>s. s\<lparr>speaker :=
                 \<lparr>sp_queue = Some [], sp_stream = Some [], sp_thread = Some True,
                  sp_stop = Some False\<rparr>\<rparr>))"

text \<open>\<^verbatim>\<open>__exit__\<close>: set the stop event, join the thread, close the stream, forget all four.\<close>

definition Speaker_exit :: "speaker_state \<Rightarrow> speaker_state" where
  "Speaker_exit sp = sp\<lparr>sp_stream := None, sp_queue := None, sp_thread := None, sp_stop := None\<rparr>"

definition Speaker_play :: "bytes \<Rightarrow> speaker_state \<Rightarrow> exn + speaker_state" where
  "Speaker_play data sp =
     (case sp_queue sp of
        None \<Rightarrow> Inl (Exn ''AttributeError''
                  (quote ''NoneType'' @ '' object has no attribute '' @ quote ''async_q''))
      | Some q \<Rightarrow> Inr (sp\<lparr>sp_queue := Some (q @ [data])\<rparr>))"

definition get_nowait :: "bytes list \<Rightarrow> exn + (bytes \<times> bytes list)" where
  "get_nowait q = (case q of [] \<Rightarrow> Inl (Exn ''QueueEmpty'' []) | x # xs \<Rightarrow> Inr (x, xs))"

text \<open>The loop of \<^verbatim>\<open>Speaker.stop\<close>: \<^verbatim>\<open>while not empty(): try: get_nowait() except
  QueueEmpty: break\<close>.\<close>

function drain :: "bytes list \<Rightarrow> bytes list" where
  "drain q =
     (if q = [] then q
      else (case get_nowait q of Inl e \<Rightarrow> q | Inr (x, q') \<Rightarrow> drain q'))"
  by pat_completeness auto
termination
  by (relation "measure length") (auto simp: get_nowait_def split: list.splits)

declare drain.simps [simp del]

definition Speaker_stop :: "speaker_state \<Rightarrow> speaker_state" where
  "Speaker_stop sp =
     (case sp_queue sp of None \<Rightarrow> sp | Some q \<Rightarrow> sp\<lparr>sp_queue := Some (drain q)\<rparr>)"

text \<open>One pass of the loop of \<^verbatim>\<open>_play\<close> with the stop event not set: take the next frame
  and write it to the stream, or time out on the empty queue.  \<open>play_thread n\<close> is the
  thread running for at most \<open>n\<close> passes; it returns once the stop event is set.\<close>

definition play_pass :: "speaker_state \<Rightarrow> speaker_state" where
  "play_pass sp =
     (case (sp_queue sp, sp_stream sp) of
        (Some (data # q), Some written) \<Rightarrow>
          sp\<lparr>sp_queue := Some q, sp_stream := Some (written @ [data])\<rparr>
      | _ \<Rightarrow> sp)"

fun play_thread :: "nat \<Rightarrow> speaker_state \<Rightarrow> speaker_state" where
  "play_thread 0 sp = sp"
| "play_thread (Suc n) sp =
     (if sp_stop sp = Some False then play_thread n (play_pass sp) else sp)"

section \<open>The capture callback\<close>

text \<open>How the hand-over of a frame to the event loop ends: the scheduled
  \<^verbatim>\<open>mic_audio_queue.put\<close> ran within the second that \<^verbatim>\<open>future.result(timeout=1)\<close> waits,
  or it did not (the coroutine stays scheduled), or scheduling or the future raised.\<close>

datatype handoff = Completed | TimedOut | Failed exn

definition paContinue :: nat where
  "paContinue = 0"

definition handoff_put :: "handoff \<Rightarrow> bytes \<Rightarrow> unit act" where
  "handoff_put h input_data =
     (case h of
        Completed \<Rightarrow> upd (\<lambda>s. s\<lparr>mic_audio_queue := mic_audio_queue s @ [input_data]\<rparr>)
      | TimedOut \<Rightarrow>
          nxt (upd (\<lambda>s. s\<lparr>pending_puts := pending_puts s @ [input_data]\<rparr>))
              (throw (Exn ''TimeoutError'' []))
      | Failed e \<Rightarrow> throw e)"

text \<open>\<^verbatim>\<open>VoiceAgent.audio_callback\<close>; its arguments \<^verbatim>\<open>frame_count\<close>, \<^verbatim>\<open>time_info\<close> and
  \<^verbatim>\<open>status_flag\<close> are not used by the source.\<close>

definition audio_callback :: "handoff \<Rightarrow> bytes \<Rightarrow> (bytes \<times> nat) act" where
  "audio_callback h input_data =
     nxt (\<lambda>s. if is_running s \<and> loop s = Some False
               then try_except (handoff_put h input_data)
                      (\<lambda>e. logger (Error_AudioCallback e)) s
               else ret () s)
         (ret (input_data, paContinue))"

section \<open>Setup and run\<close>

text \<open>\<^verbatim>\<open>VoiceAgent.setup\<close> is \<open>VoiceAgent_setup\<close> below.\<close>

definition USER_AUDIO_SAMPLE_RATE :: int where
  "USER_AUDIO_SAMPLE_RATE = 48000"

definition AGENT_AUDIO_SAMPLE_RATE :: int where
  "AGENT_AUDIO_SAMPLE_RATE = 16000"

definition VOICE :: string where
  "VOICE = ''aura-asteria-en''"

text \<open>The settings message, with the formatted prompt as its instructions.\<close>

definition SETTINGS :: "env \<Rightarrow> pyval" where
  "SETTINGS E =
     PDict
      [(''type'', PStr ''SettingsConfiguration''),
       (''audio'', PDict
          [(''input'', PDict [(''encoding'', PStr ''linear16''),
                              (''sample_rate'', PInt USER_AUDIO_SAMPLE_RATE)]),
           (''output'', PDict [(''encoding'', PStr ''linear16''),
                               (''sample_rate'', PInt AGENT_AUDIO_SAMPLE_RATE),
                               (''container'', PStr ''none'')])]),
       (''agent'', PDict
          [(''listen'', PDict [(''model'', PStr ''nova-2'')]),
           (''think'', PDict
              [(''provider'', PDict [(''type'', PStr ''open_ai'')]),
               (''model'', PStr ''gpt-4o-mini''),
               (''instructions'', PStr (PROMPT_TEMPLATE E)),
               (''functions'', FUNCTION_DEFINITIONS E)]),
           (''speak'', PDict [(''model'', PStr VOICE)])]),
       (''context'', PDict
          [(''messages'', PList
              [PDict [(''role'', PStr ''assistant''),
                      (''content'', PStr
                         (''Hello! I'' @ [CHR 0x27] @
                          ''m Sarah from TechStyle customer service. How can I help you today?''))]]),
           (''replay'', PBool True)])]"

definition websockets_connect :: "env \<Rightarrow> string \<Rightarrow> unit act" where
  "websockets_connect E dg_api_key =
     (case connect_result E of
        Some e \<Rightarrow> throw e
      | None \<Rightarrow> nxt (upd (\<lambda>s. s\<lparr>ws := True\<rparr>)) (emit (Connected dg_api_key)))"

definition VoiceAgent_setup :: "env \<Rightarrow> bool act" where
  "VoiceAgent_setup E =
     (case api_key E of
        None \<Rightarrow> nxt (logger Error_NoKey) (ret False)
      | Some dg_api_key \<Rightarrow>
          try_except
            (nxt (websockets_connect E dg_api_key)
              (bnd (lift (json_dumps E (SETTINGS E))) (\<lambda>settings.
               nxt (ws_send E settings)
              (ret True))))
            (\<lambda>e. nxt (logger (Error_Connect e)) (ret False)))"

text \<open>\<^verbatim>\<open>start_microphone\<close> by its outcome (the choice of the input device is not
  modelled); \<^verbatim>\<open>asyncio.gather(self.sender(), self.receiver())\<close> by the two tasks it
  starts, whose interleaving is not modelled here (the receiver on its own is modelled
  below); \<^verbatim>\<open>cleanup\<close> by its event.\<close>

definition start_microphone :: "env \<Rightarrow> unit act" where
  "start_microphone E =
     (case microphone_result E of
        Some e \<Rightarrow> nxt (logger (Error_Microphone e)) (throw e)
      | None \<Rightarrow> emit MicrophoneStarted)"

definition gather_sender_receiver :: "unit act" where
  "gather_sender_receiver = nxt (emit (TaskStarted ''sender'')) (emit (TaskStarted ''receiver''))"

definition cleanup :: "unit act" where
  "cleanup = emit Cleanup"

definition run :: "env \<Rightarrow> unit act" where
  "run E =
     bnd (VoiceAgent_setup E) (\<lambda>ok.
       if \<not> ok then ret ()
       else
         nxt (upd (\<lambda>s. s\<lparr>is_running := True\<rparr>))
         (try_finally
            (try_except
               (nxt (start_microphone E) gather_sender_receiver)
               (\<lambda>e. logger (Error_Run e)))
            (nxt (upd (\<lambda>s. s\<lparr>is_running := False\<rparr>))
            (nxt cleanup
                 (\<lambda>s. if ws s then emit (WsClose None) s else ret () s)))))"

section \<open>The receiver\<close>

subsection \<open>Helpers of the function-call protocol\<close>

text \<open>Truth value of a variable that is \<^verbatim>\<open>None\<close> or a reading of the clock.\<close>

definition truthy :: "real option \<Rightarrow> bool" where
  "truthy t = (case t of None \<Rightarrow> False | Some x \<Rightarrow> x \<noteq> 0)"

text \<open>\<^verbatim>\<open>func = FUNCTION_MAP.get(function_name)\<close> and \<^verbatim>\<open>if not func: raise ValueError(...)\<close>.
  The keys of the registry are strings; a list or a dict cannot be hashed.\<close>

definition lookup_function :: "env \<Rightarrow> pyval \<Rightarrow> exn + handler" where
  "lookup_function E function_name =
     (case function_name of
        PStr n \<Rightarrow>
          (case FUNCTION_MAP E n of
             Some func \<Rightarrow> Inr func
           | None \<Rightarrow> Inl (Exn ''ValueError'' (''Function '' @ n @ '' not found'')))
      | PList _ \<Rightarrow> Inl (Exn ''TypeError'' (''unhashable type: '' @ quote ''list''))
      | PDict _ \<Rightarrow> Inl (Exn ''TypeError'' (''unhashable type: '' @ quote ''dict''))
      | PNone \<Rightarrow> Inl (Exn ''ValueError'' ''Function None not found'')
      | PBool b \<Rightarrow>
          Inl (Exn ''ValueError''
                (''Function '' @ (if b then ''True'' else ''False'') @ '' not found''))
      | PInt i \<Rightarrow> Inl (Exn ''ValueError'' (''Function '' @ str_int i @ '' not found''))
      | PObject r \<Rightarrow> Inl (Exn ''ValueError'' (''Function '' @ r @ '' not found'')))"

text \<open>Build the \<^verbatim>\<open>FunctionCallResponse\<close> for a call and send it:
  \<^verbatim>\<open>response = {"type": ..., "function_call_id": ..., "output": json.dumps(payload)}\<close>,
  \<^verbatim>\<open>await self.ws.send(json.dumps(response))\<close>.\<close>

definition send_response :: "env \<Rightarrow> pyval \<Rightarrow> pyval \<Rightarrow> unit act" where
  "send_response E function_call_id payload =
     bnd (lift (json_dumps E payload)) (\<lambda>output.
     bnd (lift (json_dumps E (PDict [(''type'', PStr ''FunctionCallResponse''),
                 (''function_call_id'', function_call_id),
                 (''output'', PStr output)])))
         (ws_send E))"

definition inject_agent_message :: "env \<Rightarrow> pyval \<Rightarrow> unit act" where
  "inject_agent_message E inject_message =
     bnd (lift (json_dumps E inject_message)) (\<lambda>dumped.
     nxt (logger (Info_Inject dumped))
         (ws_send E dumped))"

text \<open>\<^verbatim>\<open>close_websocket_with_timeout\<close>: the close is bounded by five seconds, and whatever
  it raises is logged.\<close>

definition close_websocket_with_timeout :: "env \<Rightarrow> unit act" where
  "close_websocket_with_timeout E =
     try_except
       (nxt (emit (WsClose (Some 5)))
            (case close_result E of None \<Rightarrow> ret () | Some e \<Rightarrow> throw e))
       (\<lambda>e. logger (Error_WsClosure e))"

subsection \<open>Waiting for the farewell\<close>

text \<open>The condition of the first loop of \<^verbatim>\<open>wait_for_farewell_completion\<close>, evaluated
  from left to right, and that of the second.\<close>

definition speaking_started :: "pyval \<Rightarrow> pyval \<Rightarrow> exn + bool" where
  "speaking_started message_json inject_message =
     (case py_get message_json ''type'' PNone of
        Inl e \<Rightarrow> Inl e
      | Inr ty \<Rightarrow>
          if ty = PStr ''AgentStartedSpeaking'' then Inr True
          else if ty \<noteq> PStr ''ConversationText'' then Inr False
          else
            (case py_get message_json ''role'' PNone of
               Inl e \<Rightarrow> Inl e
             | Inr role \<Rightarrow>
                 if role \<noteq> PStr ''assistant'' then Inr False
                 else
                   (case py_get message_json ''content'' PNone of
                      Inl e \<Rightarrow> Inl e
                    | Inr content \<Rightarrow>
                        (case py_getitem inject_message ''message'' of
                           Inl e \<Rightarrow> Inl e
                         | Inr farewell \<Rightarrow> Inr (py_eq content farewell)))))"

definition audio_done :: "pyval \<Rightarrow> exn + bool" where
  "audio_done message_json =
     (case py_get message_json ''type'' PNone of
        Inl e \<Rightarrow> Inl e
      | Inr ty \<Rightarrow> Inr (ty = PStr ''AgentAudioDone''))"

text \<open>The two loops.  A binary frame goes to the playback queue; a text frame that is
  not JSON is skipped (\<^verbatim>\<open>except json.JSONDecodeError: continue\<close>); any other exception
  leaves the loop.\<close>

function wait_speaking_started :: "env \<Rightarrow> pyval \<Rightarrow> unit act" where
  "wait_speaking_started E inject_message s =
     (case ws_recv s of
        (Inl e, s1) \<Rightarrow> (Inl e, s1)
      | (Inr (InBytes data), s1) \<Rightarrow>
          (case Speaker_play data (speaker s1) of
             Inl e \<Rightarrow> (Inl e, s1)
           | Inr sp \<Rightarrow> wait_speaking_started E inject_message (s1\<lparr>speaker := sp\<rparr>))
      | (Inr (InText message), s1) \<Rightarrow>
          (case json_loads E message of
             Inl e \<Rightarrow> wait_speaking_started E inject_message s1
           | Inr message_json \<Rightarrow>
               (case logger (Info_Server message) s1 of
                  (_, s2) \<Rightarrow>
                    (case speaking_started message_json inject_message of
                       Inl e \<Rightarrow> (Inl e, s2)
                     | Inr started \<Rightarrow>
                         if started then (Inr (), s2)
                         else wait_speaking_started E inject_message s2))))"
  by pat_completeness auto
termination
  by (relation "measure (\<lambda>(E, inject_message, s). length (inbox s))")
     (auto simp: ws_recv_def logger_def emit_def upd_def split: list.splits)

function wait_audio_done :: "env \<Rightarrow> unit act" where
  "wait_audio_done E s =
     (case ws_recv s of
        (Inl e, s1) \<Rightarrow> (Inl e, s1)
      | (Inr (InBytes data), s1) \<Rightarrow>
          (case Speaker_play data (speaker s1) of
             Inl e \<Rightarrow> (Inl e, s1)
           | Inr sp \<Rightarrow> wait_audio_done E (s1\<lparr>speaker := sp\<rparr>))
      | (Inr (InText message), s1) \<Rightarrow>
          (case json_loads E message of
             Inl e \<Rightarrow> wait_audio_done E s1
           | Inr message_json \<Rightarrow>
               (case logger (Info_Server message) s1 of
                  (_, s2) \<Rightarrow>
                    (case audio_done message_json of
                       Inl e \<Rightarrow> (Inl e, s2)
                     | Inr done \<Rightarrow>
                         if done then (Inr (), s2)
                         else wait_audio_done E s2))))"
  by pat_completeness auto
termination
  by (relation "measure (\<lambda>(E, s). length (inbox s))")
     (auto simp: ws_recv_def logger_def emit_def upd_def split: list.splits)

declare wait_speaking_started.simps [simp del]
declare wait_audio_done.simps [simp del]

definition wait_for_farewell_completion :: "env \<Rightarrow> pyval \<Rightarrow> unit act" where
  "wait_for_farewell_completion E inject_message =
     nxt (inject_agent_message E inject_message)
    (nxt (wait_speaking_started E inject_message)
    (nxt (wait_audio_done E)
         (emit (Slept 3.5))))"

subsection \<open>The body of the main loop\<close>

text \<open>How a pass through the body of a loop ends: at its last statement, at a
  \<^verbatim>\<open>continue\<close> or at a \<^verbatim>\<open>break\<close>.\<close>

datatype flow = Fallthrough | Continue | Break

text \<open>The branch for \<^verbatim>\<open>FunctionCalling\<close>.\<close>

definition on_FunctionCalling :: "real \<Rightarrow> unit act" where
  "on_FunctionCalling current_time =
     (\<lambda>s. if in_function_chain s \<and> truthy (last_function_response_time s) then
             (case last_function_response_time s of
                Some t \<Rightarrow> logger (Info_LatencyChain (current_time - t)) s
              | None \<Rightarrow> ret () s)
           else if truthy (last_user_message s) then
             (case last_user_message s of
                Some t \<Rightarrow>
                  nxt (logger (Info_LatencyInitial (current_time - t)))
                      (upd (\<lambda>s. s\<lparr>in_function_chain := True\<rparr>)) s
              | None \<Rightarrow> ret () s)
           else ret () s)"

text \<open>The branch for \<^verbatim>\<open>ConversationText\<close>.\<close>

definition on_ConversationText :: "pyval \<Rightarrow> real \<Rightarrow> unit act" where
  "on_ConversationText message_json current_time =
     nxt (emit (Emit message_json))
    (bnd (lift (py_get message_json ''role'' PNone)) (\<lambda>role.
       if role = PStr ''user'' then
         upd (\<lambda>s. s\<lparr>last_user_message := Some current_time, in_function_chain := False\<rparr>)
       else if role = PStr ''assistant'' then
         upd (\<lambda>s. s\<lparr>in_function_chain := False\<rparr>)
       else ret ()))"

text \<open>The end of the \<^verbatim>\<open>try\<close> block of a function call: log the execution time, send
  the result, record the time of the response.\<close>

definition respond_result :: "env \<Rightarrow> pyval \<Rightarrow> real \<Rightarrow> pyval \<Rightarrow> flow act" where
  "respond_result E function_call_id start_time result =
     bnd (time_time E) (\<lambda>t.
     nxt (logger (Info_ExecutionLatency (t - start_time)))
    (nxt (send_response E function_call_id result)
    (nxt (logger (Info_ResponseSent result))
    (bnd (time_time E) (\<lambda>t'.
     nxt (upd (\<lambda>s. s\<lparr>last_function_response_time := Some t'\<rparr>))
         (ret Fallthrough))))))"

text \<open>The \<^verbatim>\<open>try\<close> block of the branch for \<^verbatim>\<open>FunctionCallRequest\<close>.\<close>

definition dispatch_function :: "env \<Rightarrow> pyval \<Rightarrow> pyval \<Rightarrow> pyval \<Rightarrow> real \<Rightarrow> flow act" where
  "dispatch_function E function_name function_call_id parameters start_time =
     bnd (lift (lookup_function E function_name)) (\<lambda>func.
       if function_name = PStr ''agent_filler'' \<or> function_name = PStr ''end_call'' then
         bnd (lift (func parameters)) (\<lambda>result.
           if function_name = PStr ''agent_filler'' then
             bnd (lift (py_getitem result ''inject_message'')) (\<lambda>inject_message.
             bnd (lift (py_getitem result ''function_response'')) (\<lambda>function_response.
             nxt (send_response E function_call_id function_response)
            (nxt (logger (Info_ResponseSent function_response))
            (bnd (time_time E) (\<lambda>t.
             nxt (upd (\<lambda>s. s\<lparr>last_function_response_time := Some t\<rparr>))
            (nxt (inject_agent_message E inject_message)
                 (ret Continue)))))))
           else if function_name = PStr ''end_call'' then
             bnd (lift (py_getitem result ''inject_message'')) (\<lambda>inject_message.
             bnd (lift (py_getitem result ''function_response'')) (\<lambda>function_response.
             bnd (lift (py_getitem result ''close_message'')) (\<lambda>close_message.
             nxt (send_response E function_call_id function_response)
            (nxt (logger (Info_ResponseSent function_response))
            (bnd (time_time E) (\<lambda>t.
             nxt (upd (\<lambda>s. s\<lparr>last_function_response_time := Some t\<rparr>))
            (nxt (wait_for_farewell_completion E inject_message)
            (nxt (logger Info_SendingClose)
            (nxt (close_websocket_with_timeout E)
            (nxt (upd (\<lambda>s. s\<lparr>is_running := False\<rparr>))
                 (ret Break)))))))))))
           else respond_result E function_call_id start_time result)
       else
         bnd (lift (func parameters))
             (respond_result E function_call_id start_time))"

text \<open>The branch for \<^verbatim>\<open>FunctionCallRequest\<close>, with its \<^verbatim>\<open>except Exception\<close>.\<close>

definition on_FunctionCallRequest :: "env \<Rightarrow> pyval \<Rightarrow> flow act" where
  "on_FunctionCallRequest E message_json =
     bnd (lift (py_get message_json ''function_name'' PNone)) (\<lambda>function_name.
     bnd (lift (py_get message_json ''function_call_id'' PNone)) (\<lambda>function_call_id.
     bnd (lift (py_get message_json ''input'' (PDict []))) (\<lambda>parameters.
     nxt (logger (Info_FunctionCallReceived function_name))
    (nxt (logger (Info_Parameters parameters))
    (bnd (time_time E) (\<lambda>start_time.
     try_except
       (dispatch_function E function_name function_call_id parameters start_time)
       (\<lambda>e. nxt (logger (Error_ExecutingFunction (exn_str e)))
            (nxt (send_response E function_call_id (PDict [(''error'', PStr (exn_str e))]))
                 (ret Fallthrough)))))))))"

text \<open>A text frame in the main loop.\<close>

definition receiver_text :: "env \<Rightarrow> string \<Rightarrow> flow act" where
  "receiver_text E message =
     nxt (logger (Info_Server message))
    (bnd (lift (json_loads E message)) (\<lambda>message_json.
     bnd (lift (py_get message_json ''type'' PNone)) (\<lambda>message_type.
     bnd (time_time E) (\<lambda>current_time.
       if message_type = PStr ''UserStartedSpeaking'' then
         nxt (upd (\<lambda>s. s\<lparr>speaker := Speaker_stop (speaker s)\<rparr>)) (ret Fallthrough)
       else if message_type = PStr ''ConversationText'' then
         nxt (on_ConversationText message_json current_time) (ret Fallthrough)
       else if message_type = PStr ''FunctionCalling'' then
         nxt (on_FunctionCalling current_time) (ret Fallthrough)
       else if message_type = PStr ''FunctionCallRequest'' then
         on_FunctionCallRequest E message_json
       else if message_type = PStr ''Welcome'' then
         bnd (lift (py_get message_json ''session_id'' PNone)) (\<lambda>session_id.
         nxt (logger (Info_SessionId session_id)) (ret Fallthrough))
       else if message_type = PStr ''CloseConnection'' then
         nxt (logger Info_Closing)
        (nxt (emit (WsClose None))
             (ret Break))
       else ret Fallthrough))))"

text \<open>One message of the main loop: a text frame is dispatched, a binary frame is
  played.\<close>

definition receiver_message :: "env \<Rightarrow> inbound \<Rightarrow> flow act" where
  "receiver_message E m =
     (case m of
        InText message \<Rightarrow> receiver_text E message
      | InBytes data \<Rightarrow>
          (\<lambda>s. case Speaker_play data (speaker s) of
                  Inl e \<Rightarrow> (Inl e, s)
                | Inr sp \<Rightarrow> (Inr Fallthrough, s\<lparr>speaker := sp\<rparr>)))"

subsection \<open>The main loop consumes its input\<close>

text \<open>No action of the receiver puts a message back: the messages still to come never
  get more.  This is what makes the main loop, which hands the transport to the
  farewell wait in its body, terminate.\<close>

definition keeps_inbox :: "'a act \<Rightarrow> bool" where
  "keeps_inbox m = (\<forall>s. length (inbox (snd (m s))) \<le> length (inbox s))"

lemma keeps_ret: "keeps_inbox (ret x)"
  by (simp add: keeps_inbox_def ret_def)

lemma keeps_throw: "keeps_inbox (throw e)"
  by (simp add: keeps_inbox_def throw_def)

lemma keeps_lift: "keeps_inbox (lift r)"
  by (simp add: keeps_inbox_def lift_def)

lemma keeps_upd: "(\<And>s. inbox (f s) = inbox s) \<Longrightarrow> keeps_inbox (upd f)"
  by (simp add: keeps_inbox_def upd_def)

lemma keeps_bnd: "keeps_inbox m \<Longrightarrow> (\<And>x. keeps_inbox (f x)) \<Longrightarrow> keeps_inbox (bnd m f)"
  unfolding keeps_inbox_def bnd_def
proof (intro allI)
  fix s
  assume m: "\<forall>s. length (inbox (snd (m s))) \<le> length (inbox s)"
    and f: "\<And>x. \<forall>s. length (inbox (snd (f x s))) \<le> length (inbox s)"
  obtain r s' where ms: "m s = (r, s')" by (cases "m s")
  from m have le: "length (inbox s') \<le> length (inbox s)"
    using ms by (metis snd_conv)
  show "length (inbox (snd (case m s of (Inl e, s') \<Rightarrow> (Inl e, s') | (Inr x, s') \<Rightarrow> f x s')))
        \<le> length (inbox s)"
  proof (cases r)
    case (Inl e)
    then show ?thesis using ms le by simp
  next
    case (Inr x)
    then show ?thesis using ms le f [of x] by (auto intro: order_trans)
  qed
qed

lemma keeps_nxt: "keeps_inbox m \<Longrightarrow> keeps_inbox k \<Longrightarrow> keeps_inbox (nxt m k)"
  by (simp add: nxt_def keeps_bnd)

lemma keeps_try_except:
  "keeps_inbox m \<Longrightarrow> (\<And>e. keeps_inbox (h e)) \<Longrightarrow> keeps_inbox (try_except m h)"
  unfolding keeps_inbox_def try_except_def
proof (intro allI)
  fix s
  assume m: "\<forall>s. length (inbox (snd (m s))) \<le> length (inbox s)"
    and h: "\<And>e. \<forall>s. length (inbox (snd (h e s))) \<le> length (inbox s)"
  obtain r s' where ms: "m s = (r, s')" by (cases "m s")
  from m have le: "length (inbox s') \<le> length (inbox s)"
    using ms by (metis snd_conv)
  show "length (inbox (snd (case m s of (Inl e, s') \<Rightarrow> h e s' | (Inr x, s') \<Rightarrow> (Inr x, s'))))
        \<le> length (inbox s)"
  proof (cases r)
    case (Inl e)
    then show ?thesis using ms le h [of e] by (auto intro: order_trans)
  next
    case (Inr x)
    then show ?thesis using ms le by simp
  qed
qed

lemma keeps_emit: "keeps_inbox (emit ev)"
  by (simp add: emit_def keeps_upd)

lemma keeps_logger: "keeps_inbox (logger e)"
  by (simp add: logger_def keeps_emit)

lemma keeps_time_time: "keeps_inbox (time_time E)"
  by (simp add: keeps_inbox_def time_time_def)

lemma keeps_ws_send: "keeps_inbox (ws_send E d)"
  by (simp add: keeps_inbox_def ws_send_def)

lemma wait_speaking_started_inbox:
  "length (inbox (snd (wait_speaking_started E im s))) \<le> length (inbox s)"
proof (induction "inbox s" arbitrary: s)
  case Nil
  then show ?case
    by (simp add: wait_speaking_started.simps [of E im s] ws_recv_def)
next
  case (Cons m ms)
  have IH: "length (inbox (snd (wait_speaking_started E im s'))) \<le> length ms" if "inbox s' = ms" for s'
    using Cons.hyps(1) [of s'] that by simp
  from Cons.hyps(2) [symmetric] show ?case
    by (subst wait_speaking_started.simps)
       (auto simp: ws_recv_def logger_def emit_def upd_def Speaker_play_def
             split: inbound.splits sum.splits option.splits
             intro!: le_SucI IH)
qed

lemma wait_audio_done_inbox:
  "length (inbox (snd (wait_audio_done E s))) \<le> length (inbox s)"
proof (induction "inbox s" arbitrary: s)
  case Nil
  then show ?case
    by (simp add: wait_audio_done.simps [of E s] ws_recv_def)
next
  case (Cons m ms)
  have IH: "length (inbox (snd (wait_audio_done E s'))) \<le> length ms" if "inbox s' = ms" for s'
    using Cons.hyps(1) [of s'] that by simp
  from Cons.hyps(2) [symmetric] show ?case
    by (subst wait_audio_done.simps)
       (auto simp: ws_recv_def logger_def emit_def upd_def Speaker_play_def
             split: inbound.splits sum.splits option.splits
             intro!: le_SucI IH)
qed

lemmas keeps_intros =
  keeps_ret keeps_throw keeps_lift keeps_bnd keeps_nxt keeps_try_except keeps_emit
  keeps_logger keeps_time_time keeps_ws_send

lemma keeps_send_response: "keeps_inbox (send_response E i p)"
  unfolding send_response_def by (intro keeps_intros)

lemma keeps_inject: "keeps_inbox (inject_agent_message E m)"
  unfolding inject_agent_message_def by (intro keeps_intros)

lemma keeps_close: "keeps_inbox (close_websocket_with_timeout E)"
  unfolding close_websocket_with_timeout_def
  by (intro keeps_intros) (auto intro: keeps_intros split: option.splits)

lemma keeps_farewell: "keeps_inbox (wait_for_farewell_completion E m)"
  unfolding wait_for_farewell_completion_def
  by (intro keeps_intros keeps_inject)
     (simp_all add: keeps_inbox_def wait_speaking_started_inbox wait_audio_done_inbox)

lemma keeps_respond_result: "keeps_inbox (respond_result E i t r)"
  unfolding respond_result_def
  by (intro keeps_intros keeps_send_response keeps_upd) simp

lemma keeps_dispatch: "keeps_inbox (dispatch_function E n i p t)"
  unfolding dispatch_function_def
  by (intro keeps_intros keeps_send_response keeps_upd keeps_inject keeps_farewell keeps_close
        keeps_respond_result if_split [where P = keeps_inbox, THEN iffD2] conjI impI)
     simp_all


lemma keeps_on_FunctionCallRequest: "keeps_inbox (on_FunctionCallRequest E mj)"
  unfolding on_FunctionCallRequest_def
  by (intro keeps_intros keeps_send_response keeps_dispatch)

lemma keeps_on_ConversationText: "keeps_inbox (on_ConversationText mj t)"
  unfolding on_ConversationText_def
  by (intro keeps_intros keeps_upd if_split [where P = keeps_inbox, THEN iffD2] conjI impI)
     simp_all

lemma keeps_on_FunctionCalling: "keeps_inbox (on_FunctionCalling t)"
  by (auto simp: keeps_inbox_def on_FunctionCalling_def logger_def emit_def upd_def nxt_def
        bnd_def ret_def split: option.splits)

lemma keeps_receiver_text: "keeps_inbox (receiver_text E message)"
  unfolding receiver_text_def
  by (intro keeps_intros keeps_upd keeps_on_FunctionCallRequest keeps_on_ConversationText
        keeps_on_FunctionCalling if_split [where P = keeps_inbox, THEN iffD2] conjI impI)
     simp_all

lemma keeps_receiver_message: "keeps_inbox (receiver_message E m)"
proof (cases m)
  case (InText message)
  then show ?thesis by (simp add: receiver_message_def keeps_receiver_text)
next
  case (InBytes data)
  then show ?thesis
    by (auto simp: receiver_message_def keeps_inbox_def split: sum.splits)
qed

lemma receiver_message_inbox:
  "receiver_message E m s = (r, s') \<Longrightarrow> length (inbox s') \<le> length (inbox s)"
  using keeps_receiver_message [of E m] by (auto simp: keeps_inbox_def dest: spec [of _ s])

function receiver_loop :: "env \<Rightarrow> unit act" where
  "receiver_loop E s =
     (case inbox s of
        [] \<Rightarrow>
          if close_ok E then (Inr (), s)
          else (Inl (Exn ''ConnectionClosedError'' ''no close frame received or sent''), s)
      | m # ms \<Rightarrow>
          (case receiver_message E m (s\<lparr>inbox := ms, trace := trace s @ [Recv m]\<rparr>) of
             (Inl e, s') \<Rightarrow> (Inl e, s')
           | (Inr Break, s') \<Rightarrow> (Inr (), s')
           | (Inr _, s') \<Rightarrow> receiver_loop E s'))"
  by pat_completeness auto
termination
  apply (relation "measure (\<lambda>(E, s). length (inbox s))")
   apply simp
  apply (auto dest: receiver_message_inbox [OF sym] intro: le_imp_less_Suc)
  done

declare receiver_loop.simps [simp del]

text \<open>The body of \<^verbatim>\<open>with self.speaker\<close>: the main loop, and \<^verbatim>\<open>__exit__\<close> however the loop
  ends.\<close>

definition receiver_scope :: "env \<Rightarrow> unit act" where
  "receiver_scope E =
     try_finally (receiver_loop E) (upd (\<lambda>s. s\<lparr>speaker := Speaker_exit (speaker s)\<rparr>))"

text \<open>\<^verbatim>\<open>VoiceAgent.receiver\<close>: a fresh speaker and fresh local variables, the main loop
  inside \<^verbatim>\<open>with self.speaker\<close>, and the outermost \<^verbatim>\<open>except Exception\<close>.\<close>

definition receiver :: "env \<Rightarrow> unit act" where
  "receiver E =
     try_except
       (nxt (upd (\<lambda>s. s\<lparr>speaker := Speaker_init, last_user_message := None,
                          last_function_response_time := None,
                          in_function_chain := False\<rparr>))
       (nxt (Speaker_enter E)
            (receiver_scope E)))
       (\<lambda>e. logger (Error_Receiver e))"

text \<open>The receiver from the top of its main loop on: what is left of the task once the
  speaker is open, at any moment a message is awaited.\<close>

definition receiver_rest :: "env \<Rightarrow> unit act" where
  "receiver_rest E = try_except (receiver_scope E) (\<lambda>e. logger (Error_Receiver e))"

text \<open>The type tags the main loop has a branch for.\<close>

definition main_loop_tags :: "string list" where
  "main_loop_tags =
     [''UserStartedSpeaking'', ''ConversationText'', ''FunctionCalling'',
      ''FunctionCallRequest'', ''Welcome'', ''CloseConnection'']"

text \<open>The events that start the capture pipeline or one of the two tasks (the receiver
  task is what opens the playback sink).\<close>

fun starts_pipeline :: "event \<Rightarrow> bool" where
  "starts_pipeline MicrophoneStarted = True"
| "starts_pipeline (TaskStarted _) = True"
| "starts_pipeline _ = False"

section \<open>Initial state and example data\<close>

text \<open>\<^verbatim>\<open>VoiceAgent.__init__\<close>.\<close>

definition VoiceAgent_init :: agent where
  "VoiceAgent_init =
     \<lparr>mic_audio_queue = [], pending_puts = [], speaker = Speaker_init, ws = False,
      is_running = False, loop = None, inbox = [], sends = 0, ticks = 0, trace = [],
      last_user_message = None, last_function_response_time = None,
      in_function_chain = False\<rparr>"

text \<open>Enqueue several frames for playback, one \<^verbatim>\<open>Speaker.play\<close> after the other.\<close>

fun play_all :: "bytes list \<Rightarrow> speaker_state \<Rightarrow> exn + speaker_state" where
  "play_all [] sp = Inr sp"
| "play_all (data # rest) sp =
     (case Speaker_play data sp of Inl e \<Rightarrow> Inl e | Inr sp' \<Rightarrow> play_all rest sp')"

text \<open>A printer of JSON for the concrete runs below: what \<^verbatim>\<open>json.dumps\<close> prints for
  values whose strings need no escaping.\<close>

fun join_with :: "string \<Rightarrow> string list \<Rightarrow> string" where
  "join_with sep [] = []"
| "join_with sep [x] = x"
| "join_with sep (x # y # ys) = x @ sep @ join_with sep (y # ys)"

fun show_json :: "pyval \<Rightarrow> string" where
  "show_json PNone = ''null''"
| "show_json (PBool b) = (if b then ''true'' else ''false'')"
| "show_json (PInt i) = str_int i"
| "show_json (PStr s) = CHR 0x22 # s @ [CHR 0x22]"
| "show_json (PList xs) = ''['' @ join_with '', '' (map show_json xs) @ '']''"
| "show_json (PDict kvs) =
     ''{'' @ join_with '', ''
              (map (\<lambda>kv. CHR 0x22 # fst kv @ [CHR 0x22] @ '': '' @ show_json (snd kv)) kvs)
       @ ''}''"
| "show_json (PObject r) = r"

text \<open>An environment and a speaker for the concrete runs below.\<close>

definition example_env :: env where
  "example_env =
     \<lparr>FUNCTION_MAP = (\<lambda>n. None), FUNCTION_DEFINITIONS = PList [], PROMPT_TEMPLATE = ''You are an English teacher'',
      json_text = show_json, json_parse = (\<lambda>t. None), clock = (\<lambda>n. 1000 + real n),
      send_ok = (\<lambda>n. True), close_ok = True, close_result = None,
      api_key = Some ''key'', connect_result = None, audio_open_result = None,
      microphone_result = None\<rparr>"

definition example_speaker :: speaker_state where
  "example_speaker =
     \<lparr>sp_queue = Some [[1, 2], [3, 4]], sp_stream = Some [[0, 0]], sp_thread = Some True,
      sp_stop = Some False\<rparr>"

section \<open>Vocabulary of the call-termination sequence\<close>








text \<open>The end-call handler and the environment of the concrete runs, and the texts a
  run has sent.  A text frame of a concrete run is named by what it carries, and
  \<open>json_parse\<close> gives the value it decodes to; a name it does not know is not JSON.\<close>

definition example_end_call :: handler where
  "example_end_call params =
     Inr (PDict
       [(''function_response'', PDict [(''status'', PStr ''closing'')]),
        (''inject_message'',
           PDict [(''type'', PStr ''InjectAgentMessage''), (''message'', PStr ''Goodbye!'')]),
        (''close_message'', PDict [(''type'', PStr ''close'')])])"

definition farewell_env :: env where
  "farewell_env =
     example_env
       \<lparr>FUNCTION_MAP := (\<lambda>n. if n = ''end_call'' then Some example_end_call else None),
        json_parse := map_of
          [(''end call request'',
              PDict [(''type'', PStr ''FunctionCallRequest''),
                     (''function_name'', PStr ''end_call''),
                     (''function_call_id'', PStr ''call-1''),
                     (''input'', PDict [(''farewell_type'', PStr ''general'')])]),
           (''agent started speaking'', PDict [(''type'', PStr ''AgentStartedSpeaking'')]),
           (''agent audio done'', PDict [(''type'', PStr ''AgentAudioDone'')]),
           (''user says bye'',
              PDict [(''type'', PStr ''ConversationText''), (''role'', PStr ''user''),
                     (''content'', PStr ''Goodbye!'')]),
           (''assistant says more'',
              PDict [(''type'', PStr ''ConversationText''), (''role'', PStr ''assistant''),
                     (''content'', PStr ''One moment.'')]),
           (''assistant says goodbye'',
              PDict [(''type'', PStr ''ConversationText''), (''role'', PStr ''assistant''),
                     (''content'', PStr ''Goodbye!'')]),
           (''[]'', PList [])]\<rparr>"

definition sent_texts :: "event list \<Rightarrow> string list" where
  "sent_texts tr = concat (map (\<lambda>ev. case ev of Sent data \<Rightarrow> [data] | _ \<Rightarrow> []) tr)"

section \<open>Properties of the playback queue\<close>

lemma drain_empty: "drain q = []"
proof (induction q)
  case Nil
  show ?case by (simp add: drain.simps [of "[]"])
next
  case (Cons x xs)
  then show ?case by (simp add: drain.simps [of "x # xs"] get_nowait_def)
qed

lemma Speaker_stop_queue:
  "sp_queue sp = Some q \<Longrightarrow> Speaker_stop sp = sp\<lparr>sp_queue := Some []\<rparr>"
  by (simp add: Speaker_stop_def drain_empty)

lemma play_all_queue:
  "sp_queue sp = Some q \<Longrightarrow> play_all fs sp = Inr (sp\<lparr>sp_queue := Some (q @ fs)\<rparr>)"
proof (induction fs arbitrary: sp q)
  case Nil
  then show ?case by simp
next
  case (Cons f fs)
  have "play_all fs (sp\<lparr>sp_queue := Some (q @ [f])\<rparr>)
        = Inr (sp\<lparr>sp_queue := Some (q @ [f])\<rparr>\<lparr>sp_queue := Some ((q @ [f]) @ fs)\<rparr>)"
    by (rule Cons.IH) simp
  with Cons.prems show ?case by (simp add: Speaker_play_def)
qed

lemma play_thread_writes:
  "sp_queue sp = Some fs \<Longrightarrow> sp_stream sp = Some w \<Longrightarrow> sp_stop sp = Some False \<Longrightarrow>
   play_thread (length fs) sp = sp\<lparr>sp_queue := Some [], sp_stream := Some (w @ fs)\<rparr>"
proof (induction fs arbitrary: sp w)
  case Nil
  then show ?case by simp
next
  case (Cons f fs)
  let ?sp = "sp\<lparr>sp_queue := Some fs, sp_stream := Some (w @ [f])\<rparr>"
  have "play_thread (length fs) ?sp = ?sp\<lparr>sp_queue := Some [], sp_stream := Some ((w @ [f]) @ fs)\<rparr>"
    by (rule Cons.IH) (simp_all add: Cons.prems)
  with Cons.prems show ?case by (simp add: play_pass_def)
qed

text \<open>
  Claim C3.  Whatever frames the playback queue holds, processing a \<^verbatim>\<open>UserStartedSpeaking\<close>
  message in the main loop leaves the queue empty and changes nothing else of the
  speaker: the stop event stays unset, the thread and the stream are as before.  Frames
  enqueued afterwards are all in the queue, and the playback thread writes exactly them,
  in order, after what the stream had received before; no drained frame is written.
\<close>

theorem barge_in_drains_playback_queue:
  assumes "json_parse E message = Some (PDict kvs)"
    and "map_of kvs ''type'' = Some (PStr ''UserStartedSpeaking'')"
    and "sp_queue (speaker s) = Some q"
    and "sp_stream (speaker s) = Some w"
    and "sp_stop (speaker s) = Some False"
  shows "\<exists>s'. receiver_message E (InText message) s = (Inr Fallthrough, s')
           \<and> speaker s' = (speaker s)\<lparr>sp_queue := Some []\<rparr>
           \<and> sp_queue (speaker s') = Some []
           \<and> sp_stop (speaker s') = Some False
           \<and> sp_thread (speaker s') = sp_thread (speaker s)
           \<and> sp_stream (speaker s') = Some w
           \<and> (\<exists>sp. play_all frames (speaker s') = Inr sp
                  \<and> sp_queue sp = Some frames
                  \<and> sp_stream (play_thread (length frames) sp) = Some (w @ frames)
                  \<and> sp_queue (play_thread (length frames) sp) = Some [])"
proof -
  let ?sp = "(speaker s)\<lparr>sp_queue := Some []\<rparr>"
  let ?s' = "s\<lparr>trace := trace s @ [Log (Info_Server message)], ticks := Suc (ticks s),
               speaker := ?sp\<rparr>"
  have run: "receiver_message E (InText message) s = (Inr Fallthrough, ?s')"
    using assms(1,2) Speaker_stop_queue [OF assms(3)]
    by (simp add: receiver_message_def receiver_text_def nxt_def bnd_def logger_def emit_def
          upd_def lift_def json_loads_def py_get_def time_time_def ret_def)
  have all: "play_all frames ?sp = Inr (?sp\<lparr>sp_queue := Some ([] @ frames)\<rparr>)"
    by (rule play_all_queue) simp
  have thr: "play_thread (length frames) (?sp\<lparr>sp_queue := Some frames\<rparr>)
             = ?sp\<lparr>sp_queue := Some frames\<rparr>\<lparr>sp_queue := Some [], sp_stream := Some (w @ frames)\<rparr>"
    by (rule play_thread_writes) (simp_all add: assms)
  show ?thesis
    using run all thr assms by simp
qed

theorem barge_in_drains_playback_queue_witness:
  "\<exists>s'. receiver_message
           (example_env\<lparr>json_parse := (\<lambda>t. Some (PDict [(''type'', PStr ''UserStartedSpeaking'')]))\<rparr>)
           (InText ''barge-in'') (VoiceAgent_init\<lparr>speaker := example_speaker\<rparr>)
         = (Inr Fallthrough, s')
       \<and> speaker s' = example_speaker\<lparr>sp_queue := Some []\<rparr>
       \<and> sp_queue (speaker s') = Some []
       \<and> sp_stop (speaker s') = Some False
       \<and> sp_thread (speaker s') = Some True
       \<and> sp_stream (speaker s') = Some [[0, 0]]
       \<and> (\<exists>sp. play_all [[5, 6], [7, 8]] (speaker s') = Inr sp
              \<and> sp_queue sp = Some [[5, 6], [7, 8]]
              \<and> sp_stream (play_thread (length [[5, 6], [7, 8 :: 8 word]]) sp) = Some ([[0, 0]] @ [[5, 6], [7, 8]])
              \<and> sp_queue (play_thread (length [[5, 6], [7, 8 :: 8 word]]) sp) = Some [])"
  using barge_in_drains_playback_queue
    [of "example_env\<lparr>json_parse := (\<lambda>t. Some (PDict [(''type'', PStr ''UserStartedSpeaking'')]))\<rparr>"
        "''barge-in''" "[(''type'', PStr ''UserStartedSpeaking'')]"
        "VoiceAgent_init\<lparr>speaker := example_speaker\<rparr>" "[[1, 2], [3, 4]]" "[[0, 0]]"
        "[[5, 6], [7, 8]]"]
  by (simp add: example_env_def example_speaker_def VoiceAgent_init_def)

section \<open>Properties of the capture callback\<close>

text \<open>
  Claim C7.  For every frame and every outcome of the hand-over (completed, timed out, or
  any other exception) the capture callback returns \<^verbatim>\<open>(input_data, paContinue)\<close>: no
  exception leaves it.  An exception of the hand-over is logged, and nothing else is.
\<close>

theorem audio_callback_never_raises:
  "fst (audio_callback h input_data s) = Inr (input_data, paContinue)
   \<and> trace (snd (audio_callback h input_data s))
       = trace s @
         (if is_running s \<and> loop s = Some False then
            (case h of
               Completed \<Rightarrow> []
             | TimedOut \<Rightarrow> [Log (Error_AudioCallback (Exn ''TimeoutError'' []))]
             | Failed e \<Rightarrow> [Log (Error_AudioCallback e)])
          else [])"
  by (cases h)
     (simp_all add: audio_callback_def handoff_put_def nxt_def bnd_def try_except_def
        logger_def emit_def upd_def throw_def ret_def)

theorem audio_callback_never_raises_witness:
  "fst (audio_callback (Failed (Exn ''RuntimeError'' ''Event loop is closed'')) [1, 2]
          (VoiceAgent_init\<lparr>is_running := True, loop := Some False\<rparr>))
     = Inr ([1, 2], paContinue)
   \<and> trace (snd (audio_callback (Failed (Exn ''RuntimeError'' ''Event loop is closed'')) [1, 2]
          (VoiceAgent_init\<lparr>is_running := True, loop := Some False\<rparr>)))
     = [Log (Error_AudioCallback (Exn ''RuntimeError'' ''Event loop is closed''))]"
  using audio_callback_never_raises
    [of "Failed (Exn ''RuntimeError'' ''Event loop is closed'')" "[1, 2]"
        "VoiceAgent_init\<lparr>is_running := True, loop := Some False\<rparr>"]
  by (simp add: VoiceAgent_init_def)

text \<open>
  Claim C6, as stated, fails: when the hand-over times out the oldest queued frame is not
  dropped.  With one frame queued, the queue after the callback is not the new frame
  alone, and its head is still the old frame.
\<close>

theorem handoff_timeout_keeps_oldest_frame_counterexample:
  "mic_audio_queue (snd (audio_callback TimedOut [3, 4]
      (VoiceAgent_init\<lparr>is_running := True, loop := Some False, mic_audio_queue := [[1, 2]]\<rparr>)))
     \<noteq> tl [[1, 2]] @ [[3, 4]]
   \<and> hd (mic_audio_queue (snd (audio_callback TimedOut [3, 4]
      (VoiceAgent_init\<lparr>is_running := True, loop := Some False, mic_audio_queue := [[1, 2]]\<rparr>))))
     = [1, 2]"
  by (simp add: audio_callback_def handoff_put_def nxt_def bnd_def try_except_def
        logger_def emit_def upd_def throw_def ret_def VoiceAgent_init_def)

text \<open>
  Claim C6, amended.  When the hand-over times out, no queued frame is dropped: the queue
  is as it was, the put of the new frame stays scheduled, the timeout is logged as an
  error of the callback, and the callback returns \<^verbatim>\<open>(input_data, paContinue)\<close>.
\<close>

theorem handoff_timeout_drops_nothing:
  assumes "is_running s" and "loop s = Some False"
  shows "audio_callback TimedOut input_data s
         = (Inr (input_data, paContinue),
            s\<lparr>pending_puts := pending_puts s @ [input_data],
              trace := trace s @ [Log (Error_AudioCallback (Exn ''TimeoutError'' []))]\<rparr>)
         \<and> mic_audio_queue (snd (audio_callback TimedOut input_data s)) = mic_audio_queue s"
  using assms
  by (simp add: audio_callback_def handoff_put_def nxt_def bnd_def try_except_def
        logger_def emit_def upd_def throw_def ret_def)

theorem handoff_timeout_drops_nothing_witness:
  "audio_callback TimedOut [3, 4]
      (VoiceAgent_init\<lparr>is_running := True, loop := Some False, mic_audio_queue := [[1, 2]]\<rparr>)
   = (Inr ([3, 4], paContinue),
      VoiceAgent_init\<lparr>is_running := True, loop := Some False, mic_audio_queue := [[1, 2]],
        pending_puts := [[3, 4]],
        trace := [Log (Error_AudioCallback (Exn ''TimeoutError'' []))]\<rparr>)
   \<and> mic_audio_queue (snd (audio_callback TimedOut [3, 4]
      (VoiceAgent_init\<lparr>is_running := True, loop := Some False, mic_audio_queue := [[1, 2]]\<rparr>)))
     = [[1, 2]]"
  using handoff_timeout_drops_nothing
    [of "VoiceAgent_init\<lparr>is_running := True, loop := Some False, mic_audio_queue := [[1, 2]]\<rparr>"
        "[3, 4]"]
  by (simp add: VoiceAgent_init_def)

section \<open>Properties of setup and run\<close>

lemmas act_defs =
  ret_def throw_def lift_def upd_def bnd_def nxt_def try_except_def try_finally_def
  emit_def logger_def time_time_def

lemma setup_result:
  "VoiceAgent_setup E s =
     (case api_key E of
        None \<Rightarrow> (Inr False, s\<lparr>trace := trace s @ [Log Error_NoKey]\<rparr>)
      | Some k \<Rightarrow>
          (case connect_result E of
             Some e \<Rightarrow> (Inr False, s\<lparr>trace := trace s @ [Log (Error_Connect e)]\<rparr>)
           | None \<Rightarrow>
               if \<not> serializable (SETTINGS E) then
                 (Inr False, s\<lparr>ws := True, trace := trace s @
                    [Connected k,
                     Log (Error_Connect (Exn ''TypeError'' ''Object is not JSON serializable''))]\<rparr>)
               else if \<not> send_ok E (sends s) then
                 (Inr False, s\<lparr>ws := True, sends := Suc (sends s), trace := trace s @
                    [Connected k,
                     Log (Error_Connect
                            (Exn ''ConnectionClosed'' ''no close frame received or sent''))]\<rparr>)
               else
                 (Inr True, s\<lparr>ws := True, sends := Suc (sends s), trace := trace s @
                    [Connected k, Sent (json_text E (SETTINGS E))]\<rparr>)))"
  by (simp add: VoiceAgent_setup_def websockets_connect_def json_dumps_def ws_send_def act_defs
        split: option.splits)

text \<open>
  Claim C8.  \<open>VoiceAgent_setup\<close> never raises: it returns a truth value, which is false
  exactly when the credential is absent, connecting fails, or the initial settings
  message cannot be serialised or sent.  Whenever it returns false, \<open>run\<close> returns at
  once in the state the setup left: the running flag and the speaker are untouched, and
  no event added to the trace starts the microphone or a task.
\<close>

theorem setup_failure_starts_nothing:
  "fst (VoiceAgent_setup E s)
     = Inr (api_key E \<noteq> None \<and> connect_result E = None \<and> serializable (SETTINGS E)
            \<and> send_ok E (sends s))
   \<and> (fst (VoiceAgent_setup E s) = Inr False \<longrightarrow>
        run E s = (Inr (), snd (VoiceAgent_setup E s))
        \<and> is_running (snd (run E s)) = is_running s
        \<and> speaker (snd (run E s)) = speaker s
        \<and> (\<exists>new. trace (snd (run E s)) = trace s @ new
               \<and> list_all (\<lambda>ev. \<not> starts_pipeline ev) new))"
proof -
  have res: "fst (VoiceAgent_setup E s)
     = Inr (api_key E \<noteq> None \<and> connect_result E = None \<and> serializable (SETTINGS E)
            \<and> send_ok E (sends s))"
    by (auto simp: setup_result split: option.splits)
  have quiet: "is_running (snd (VoiceAgent_setup E s)) = is_running s
     \<and> speaker (snd (VoiceAgent_setup E s)) = speaker s
     \<and> (\<exists>new. trace (snd (VoiceAgent_setup E s)) = trace s @ new
            \<and> list_all (\<lambda>ev. \<not> starts_pipeline ev) new)"
    if "fst (VoiceAgent_setup E s) = Inr False"
    using that by (auto simp: setup_result split: option.splits if_splits)
  have ret: "run E s = (Inr (), snd (VoiceAgent_setup E s))"
    if "fst (VoiceAgent_setup E s) = Inr False"
    using that by (cases "VoiceAgent_setup E s") (simp add: run_def bnd_def ret_def)
  show ?thesis
    using res quiet ret by simp
qed

theorem setup_failure_starts_nothing_witness:
  "fst (VoiceAgent_setup (example_env\<lparr>api_key := None\<rparr>) VoiceAgent_init) = Inr False
   \<and> run (example_env\<lparr>api_key := None\<rparr>) VoiceAgent_init
       = (Inr (), snd (VoiceAgent_setup (example_env\<lparr>api_key := None\<rparr>) VoiceAgent_init))
   \<and> is_running (snd (run (example_env\<lparr>api_key := None\<rparr>) VoiceAgent_init)) = False
   \<and> trace (snd (run (example_env\<lparr>api_key := None\<rparr>) VoiceAgent_init)) = [Log Error_NoKey]"
  using setup_failure_starts_nothing [of "example_env\<lparr>api_key := None\<rparr>" VoiceAgent_init]
  by (simp add: setup_result example_env_def VoiceAgent_init_def)

section \<open>Properties of the main loop\<close>

lemma receiver_loop_step:
  "receiver_message E m (s\<lparr>inbox := ms, trace := trace s @ [Recv m]\<rparr>) = (Inr Fallthrough, s')
   \<Longrightarrow> inbox s = m # ms \<Longrightarrow> receiver_loop E s = receiver_loop E s'"
  by (simp add: receiver_loop.simps [of E s])

lemma receiver_loop_raise:
  "receiver_message E m (s\<lparr>inbox := ms, trace := trace s @ [Recv m]\<rparr>) = (Inl e, s')
   \<Longrightarrow> inbox s = m # ms \<Longrightarrow> receiver_loop E s = (Inl e, s')"
  by (simp add: receiver_loop.simps [of E s])

text \<open>
  Claim C9.  A text message that decodes to a dict whose type tag is none of those the
  main loop dispatches on is logged and ignored: the body of the loop ends normally,
  nothing but the log (and the count of clock readings) differs in the state, and the
  loop goes on with the messages that follow.
\<close>

theorem unknown_tag_is_ignored:
  assumes "json_parse E message = Some (PDict kvs)"
    and "\<forall>tag \<in> set main_loop_tags. map_of kvs ''type'' \<noteq> Some (PStr tag)"
  shows "receiver_message E (InText message) s
         = (Inr Fallthrough,
            s\<lparr>trace := trace s @ [Log (Info_Server message)], ticks := Suc (ticks s)\<rparr>)
       \<and> receiver_loop E (s\<lparr>inbox := InText message # rest\<rparr>)
         = receiver_loop E
             (s\<lparr>inbox := rest,
                trace := trace s @ [Recv (InText message), Log (Info_Server message)],
                ticks := Suc (ticks s)\<rparr>)"
proof -
  define mt where "mt = (case map_of kvs ''type'' of Some v \<Rightarrow> v | None \<Rightarrow> PNone)"
  have get: "py_get (PDict kvs) ''type'' PNone = Inr mt"
    by (simp add: py_get_def mt_def)
  have mt: "mt \<noteq> PStr ''UserStartedSpeaking''" "mt \<noteq> PStr ''ConversationText''"
    "mt \<noteq> PStr ''FunctionCalling''" "mt \<noteq> PStr ''FunctionCallRequest''"
    "mt \<noteq> PStr ''Welcome''" "mt \<noteq> PStr ''CloseConnection''"
    using assms(2) by (auto simp: mt_def main_loop_tags_def split: option.splits)
  have body: "receiver_message E (InText message) t
         = (Inr Fallthrough,
            t\<lparr>trace := trace t @ [Log (Info_Server message)], ticks := Suc (ticks t)\<rparr>)" for t
    using assms(1) get mt
    by (simp add: receiver_message_def receiver_text_def json_loads_def act_defs)
  have "receiver_loop E (s\<lparr>inbox := InText message # rest\<rparr>)
        = receiver_loop E
            ((s\<lparr>inbox := InText message # rest\<rparr>)\<lparr>inbox := rest, trace := trace s @ [Recv (InText message)]\<rparr>
               \<lparr>trace := (trace s @ [Recv (InText message)]) @ [Log (Info_Server message)],
                ticks := Suc (ticks s)\<rparr>)"
    by (rule receiver_loop_step [where m = "InText message" and ms = rest])
       (simp_all add: body)
  then show ?thesis
    using body [of s] by simp
qed

theorem unknown_tag_is_ignored_witness:
  "receiver_message
     (example_env\<lparr>json_parse := (\<lambda>t. Some (PDict [(''type'', PStr ''AgentAudioDone'')]))\<rparr>)
     (InText ''agent audio done'') VoiceAgent_init
   = (Inr Fallthrough,
      VoiceAgent_init\<lparr>trace := [Log (Info_Server ''agent audio done'')], ticks := 1\<rparr>)
   \<and> receiver_loop
       (example_env\<lparr>json_parse := (\<lambda>t. Some (PDict [(''type'', PStr ''AgentAudioDone'')]))\<rparr>)
       (VoiceAgent_init\<lparr>inbox := [InText ''agent audio done'', InBytes [1, 2]]\<rparr>)
     = receiver_loop
         (example_env\<lparr>json_parse := (\<lambda>t. Some (PDict [(''type'', PStr ''AgentAudioDone'')]))\<rparr>)
         (VoiceAgent_init
            \<lparr>inbox := [InBytes [1, 2]],
             trace := [Recv (InText ''agent audio done''), Log (Info_Server ''agent audio done'')],
             ticks := 1\<rparr>)"
  using unknown_tag_is_ignored
    [where E = "example_env\<lparr>json_parse := (\<lambda>t. Some (PDict [(''type'', PStr ''AgentAudioDone'')]))\<rparr>"
       and message = "''agent audio done''" and kvs = "[(''type'', PStr ''AgentAudioDone'')]"
       and s = VoiceAgent_init and rest = "[InBytes [1, 2]]"]
  by (simp add: main_loop_tags_def VoiceAgent_init_def)

text \<open>
  Claim C10.  A text payload that is not valid JSON, met by the main loop, ends the
  receiver: \<^verbatim>\<open>json.loads\<close> raises out of the loop, none of the following messages is
  taken from the transport, and only the outermost handler of the task catches the
  exception, after the speaker has been closed.
\<close>

theorem invalid_json_ends_receiver:
  assumes "json_parse E message = None"
  shows "receiver_loop E (s\<lparr>inbox := InText message # rest\<rparr>)
         = (Inl (Exn ''JSONDecodeError'' ''Expecting value''),
            s\<lparr>inbox := rest,
              trace := trace s @ [Recv (InText message), Log (Info_Server message)]\<rparr>)
       \<and> receiver_rest E (s\<lparr>inbox := InText message # rest\<rparr>)
         = (Inr (),
            s\<lparr>inbox := rest, speaker := Speaker_exit (speaker s),
              trace := trace s @
                [Recv (InText message), Log (Info_Server message),
                 Log (Error_Receiver (Exn ''JSONDecodeError'' ''Expecting value''))]\<rparr>)"
proof -
  have body: "receiver_message E (InText message) t
         = (Inl (Exn ''JSONDecodeError'' ''Expecting value''),
            t\<lparr>trace := trace t @ [Log (Info_Server message)]\<rparr>)" for t
    using assms
    by (simp add: receiver_message_def receiver_text_def json_loads_def act_defs)
  have "receiver_loop E (s\<lparr>inbox := InText message # rest\<rparr>)
         = (Inl (Exn ''JSONDecodeError'' ''Expecting value''),
            (s\<lparr>inbox := InText message # rest\<rparr>)\<lparr>inbox := rest, trace := trace s @ [Recv (InText message)]\<rparr>
               \<lparr>trace := (trace s @ [Recv (InText message)]) @ [Log (Info_Server message)]\<rparr>)"
    by (rule receiver_loop_raise [where m = "InText message" and ms = rest])
       (simp_all add: body)
  then have loop: "receiver_loop E (s\<lparr>inbox := InText message # rest\<rparr>)
         = (Inl (Exn ''JSONDecodeError'' ''Expecting value''),
            s\<lparr>inbox := rest,
              trace := trace s @ [Recv (InText message), Log (Info_Server message)]\<rparr>)"
    by simp
  show ?thesis
    by (simp add: loop receiver_rest_def receiver_scope_def act_defs)
qed

theorem invalid_json_ends_receiver_witness:
  "receiver_loop example_env (VoiceAgent_init\<lparr>inbox := [InText ''{oops'', InBytes [1, 2]]\<rparr>)
   = (Inl (Exn ''JSONDecodeError'' ''Expecting value''),
      VoiceAgent_init\<lparr>inbox := [InBytes [1, 2]],
        trace := [Recv (InText ''{oops''), Log (Info_Server ''{oops'')]\<rparr>)
   \<and> receiver_rest example_env (VoiceAgent_init\<lparr>inbox := [InText ''{oops'', InBytes [1, 2]]\<rparr>)
   = (Inr (),
      VoiceAgent_init\<lparr>inbox := [InBytes [1, 2]], speaker := Speaker_exit Speaker_init,
        trace := [Recv (InText ''{oops''), Log (Info_Server ''{oops''),
                  Log (Error_Receiver (Exn ''JSONDecodeError'' ''Expecting value''))]\<rparr>)"
  using invalid_json_ends_receiver [where E = example_env and message = "''{oops''" and s = VoiceAgent_init
       and rest = "[InBytes [1, 2]]"]
  by (simp add: example_env_def VoiceAgent_init_def)

text \<open>
  Claim C4.  A \<^verbatim>\<open>FunctionCalling\<close> message arrives when the clock reads
  \<open>t1 = clock E (ticks s)\<close>.  If the chain flag is set and a function response was recorded
  at \<open>t2\<close>, the latency logged is the chain latency \<open>t1 - t2\<close>.  Otherwise, if a user
  utterance was recorded at \<open>t0\<close>, the latency logged is the initial latency \<open>t1 - t0\<close>
  and the chain flag becomes true.  The recorded times are readings of \<^verbatim>\<open>time.time()\<close>,
  seconds since 1970, hence not zero (the source tests them for truth).
\<close>

theorem function_calling_latency:
  assumes "json_parse E message = Some (PDict kvs)"
    and "map_of kvs ''type'' = Some (PStr ''FunctionCalling'')"
    and "last_function_response_time s \<noteq> Some 0"
    and "last_user_message s \<noteq> Some 0"
  shows "(in_function_chain s \<and> last_function_response_time s = Some t2 \<longrightarrow>
            receiver_message E (InText message) s
            = (Inr Fallthrough,
               s\<lparr>trace := trace s @
                    [Log (Info_Server message),
                     Log (Info_LatencyChain (clock E (ticks s) - t2))],
                 ticks := Suc (ticks s)\<rparr>))
       \<and> (\<not> (in_function_chain s \<and> last_function_response_time s \<noteq> None)
            \<and> last_user_message s = Some t0 \<longrightarrow>
            receiver_message E (InText message) s
            = (Inr Fallthrough,
               s\<lparr>trace := trace s @
                    [Log (Info_Server message),
                     Log (Info_LatencyInitial (clock E (ticks s) - t0))],
                 ticks := Suc (ticks s), in_function_chain := True\<rparr>))"
proof -
  have get: "py_get (PDict kvs) ''type'' PNone = Inr (PStr ''FunctionCalling'')"
    using assms(2) by (simp add: py_get_def)
  have body: "receiver_message E (InText message) s
     = (case on_FunctionCalling (clock E (ticks s))
              (s\<lparr>trace := trace s @ [Log (Info_Server message)], ticks := Suc (ticks s)\<rparr>) of
          (Inl e, s') \<Rightarrow> (Inl e, s')
        | (Inr u, s') \<Rightarrow> (Inr Fallthrough, s'))"
    using assms(1) get
    by (simp add: receiver_message_def receiver_text_def json_loads_def act_defs)
  show ?thesis
    using assms(3,4)
    by (auto simp: body on_FunctionCalling_def truthy_def act_defs split: option.splits)
qed

theorem function_calling_latency_witness:
  "receiver_message
     (example_env\<lparr>json_parse := (\<lambda>t. Some (PDict [(''type'', PStr ''FunctionCalling'')]))\<rparr>)
     (InText ''function calling'')
     (VoiceAgent_init\<lparr>in_function_chain := True, last_function_response_time := Some 990,
        last_user_message := Some 980\<rparr>)
   = (Inr Fallthrough,
      VoiceAgent_init\<lparr>in_function_chain := True, last_function_response_time := Some 990,
        last_user_message := Some 980,
        trace := [Log (Info_Server ''function calling''), Log (Info_LatencyChain 10)],
        ticks := 1\<rparr>)
   \<and> receiver_message
     (example_env\<lparr>json_parse := (\<lambda>t. Some (PDict [(''type'', PStr ''FunctionCalling'')]))\<rparr>)
     (InText ''function calling'')
     (VoiceAgent_init\<lparr>last_user_message := Some 980\<rparr>)
   = (Inr Fallthrough,
      VoiceAgent_init\<lparr>last_user_message := Some 980,
        trace := [Log (Info_Server ''function calling''), Log (Info_LatencyInitial 20)],
        ticks := 1, in_function_chain := True\<rparr>)"
  using function_calling_latency
    [where E = "example_env\<lparr>json_parse := (\<lambda>t. Some (PDict [(''type'', PStr ''FunctionCalling'')]))\<rparr>"
       and message = "''function calling''" and kvs = "[(''type'', PStr ''FunctionCalling'')]"
       and s = "VoiceAgent_init\<lparr>in_function_chain := True, last_function_response_time := Some 990,
           last_user_message := Some 980\<rparr>" and ?t2.0 = 990 and ?t0.0 = 980]
    function_calling_latency
    [where E = "example_env\<lparr>json_parse := (\<lambda>t. Some (PDict [(''type'', PStr ''FunctionCalling'')]))\<rparr>"
       and message = "''function calling''" and kvs = "[(''type'', PStr ''FunctionCalling'')]"
       and s = "VoiceAgent_init\<lparr>last_user_message := Some 980\<rparr>" and ?t2.0 = 0 and ?t0.0 = 980]
  by (simp add: example_env_def VoiceAgent_init_def)

section \<open>Properties of the function-call protocol\<close>

lemma send_response_ok:
  "serializable payload \<Longrightarrow> serializable function_call_id \<Longrightarrow> send_ok E (sends s) \<Longrightarrow>
   send_response E function_call_id payload s
   = (Inr (),
      s\<lparr>sends := Suc (sends s),
        trace := trace s @
          [Sent (json_text E (PDict [(''type'', PStr ''FunctionCallResponse''),
                      (''function_call_id'', function_call_id),
                      (''output'', PStr (json_text E payload))]))]\<rparr>)"
  by (simp add: send_response_def json_dumps_def ws_send_def act_defs)

lemma serializable_field:
  "serializable (PDict kvs) \<Longrightarrow>
   serializable (case map_of kvs k of Some v \<Rightarrow> v | None \<Rightarrow> PNone)"
  by (auto simp: list_all_iff split: option.splits dest!: map_of_SomeD)

text \<open>
  Claim C5.  A \<^verbatim>\<open>FunctionCallRequest\<close> names a function that the registry does not have.
  Then no exception leaves the dispatch: the body of the loop ends normally, having
  logged the error and sent, where the transport accepts the send, one
  \<^verbatim>\<open>FunctionCallResponse\<close> with the call id of the request whose output is the object
  \<^verbatim>\<open>{"error": "Function <name> not found"}\<close>.
\<close>

theorem unknown_function_gets_error_response:
  assumes "json_parse E message = Some (PDict kvs)"
    and "serializable (PDict kvs)"
    and "map_of kvs ''type'' = Some (PStr ''FunctionCallRequest'')"
    and "map_of kvs ''function_name'' = Some (PStr name)"
    and "FUNCTION_MAP E name = None"
    and "send_ok E (sends s)"
  shows "receiver_message E (InText message) s
         = (Inr Fallthrough,
            s\<lparr>trace := trace s @
                 [Log (Info_Server message),
                  Log (Info_FunctionCallReceived (PStr name)),
                  Log (Info_Parameters
                         (case map_of kvs ''input'' of Some v \<Rightarrow> v | None \<Rightarrow> PDict [])),
                  Log (Error_ExecutingFunction (''Function '' @ name @ '' not found'')),
                  Sent (json_text E
                          (PDict
                             [(''type'', PStr ''FunctionCallResponse''),
                              (''function_call_id'',
                                 (case map_of kvs ''function_call_id'' of
                                    Some v \<Rightarrow> v | None \<Rightarrow> PNone)),
                              (''output'',
                                 PStr (json_text E
                                         (PDict [(''error'',
                                                  PStr (''Function '' @ name
                                                        @ '' not found''))])))]))],
               ticks := Suc (Suc (ticks s)),
               sends := Suc (sends s)\<rparr>)"
proof -
  define fid where "fid = (case map_of kvs ''function_call_id'' of Some v \<Rightarrow> v | None \<Rightarrow> PNone)"
  define msg where "msg = ''Function '' @ name @ '' not found''"
  define params where "params = (case map_of kvs ''input'' of Some v \<Rightarrow> v | None \<Rightarrow> PDict [])"
  have ser: "serializable fid"
    unfolding fid_def using assms(2) by (rule serializable_field)
  have get: "py_get (PDict kvs) ''type'' PNone = Inr (PStr ''FunctionCallRequest'')"
    "py_get (PDict kvs) ''function_name'' PNone = Inr (PStr name)"
    "py_get (PDict kvs) ''function_call_id'' PNone = Inr fid"
    "py_get (PDict kvs) ''input'' (PDict []) = Inr params"
    using assms(3,4) by (simp_all add: py_get_def fid_def params_def)
  have look: "lookup_function E (PStr name) = Inl (Exn ''ValueError'' msg)"
    using assms(5) by (simp add: lookup_function_def msg_def)
  have disp: "dispatch_function E (PStr name) fid p t0 t = (Inl (Exn ''ValueError'' msg), t)"
    for p t0 t
    by (simp add: dispatch_function_def look act_defs)
  have resp: "send_response E fid (PDict [(''error'', PStr msg)]) t
     = (Inr (),
        t\<lparr>sends := Suc (sends t),
          trace := trace t @
            [Sent (json_text E (PDict [(''type'', PStr ''FunctionCallResponse''),
                        (''function_call_id'', fid),
                        (''output'',
                           PStr (json_text E (PDict [(''error'', PStr msg)])))]))]\<rparr>)"
    if "send_ok E (sends t)" for t
    using ser that by (intro send_response_ok) simp_all
  have req: "on_FunctionCallRequest E (PDict kvs) t
     = (Inr Fallthrough,
        t\<lparr>trace := trace t @
             [Log (Info_FunctionCallReceived (PStr name)),
              Log (Info_Parameters params),
              Log (Error_ExecutingFunction msg),
              Sent (json_text E (PDict [(''type'', PStr ''FunctionCallResponse''),
                          (''function_call_id'', fid),
                          (''output'',
                             PStr (json_text E (PDict [(''error'', PStr msg)])))]))],
           ticks := Suc (ticks t), sends := Suc (sends t)\<rparr>)"
    if "send_ok E (sends t)" for t
    using that
    by (simp add: on_FunctionCallRequest_def get disp resp act_defs)
  have "receiver_message E (InText message) s
         = (Inr Fallthrough,
            s\<lparr>trace := trace s @
                 [Log (Info_Server message),
                  Log (Info_FunctionCallReceived (PStr name)),
                  Log (Info_Parameters params),
                  Log (Error_ExecutingFunction msg),
                  Sent (json_text E (PDict [(''type'', PStr ''FunctionCallResponse''),
                              (''function_call_id'', fid),
                              (''output'',
                                 PStr (json_text E (PDict [(''error'', PStr msg)])))]))],
               ticks := Suc (Suc (ticks s)),
               sends := Suc (sends s)\<rparr>)"
    using assms(1,6)
    by (simp add: receiver_message_def receiver_text_def json_loads_def get req act_defs)
  then show ?thesis
    unfolding fid_def msg_def params_def .
qed

theorem unknown_function_gets_error_response_witness:
  "receiver_message
     (example_env\<lparr>json_parse := (\<lambda>t. Some (PDict
        [(''type'', PStr ''FunctionCallRequest''), (''function_name'', PStr ''get_weather''),
         (''function_call_id'', PStr ''call-7''), (''input'', PDict [])]))\<rparr>)
     (InText ''request'') VoiceAgent_init
   = (Inr Fallthrough,
      VoiceAgent_init
        \<lparr>trace :=
           [Log (Info_Server ''request''),
            Log (Info_FunctionCallReceived (PStr ''get_weather'')),
            Log (Info_Parameters (PDict [])),
            Log (Error_ExecutingFunction ''Function get_weather not found''),
            Sent (json_text example_env
                    (PDict [(''type'', PStr ''FunctionCallResponse''),
                                (''function_call_id'', (PStr ''call-7'')),
                                (''output'', PStr (json_text example_env (PDict [(''error'', PStr ''Function get_weather not found'')])))]))],
         ticks := 2, sends := 1\<rparr>)"
  using unknown_function_gets_error_response
    [where E = "example_env\<lparr>json_parse := (\<lambda>t. Some (PDict
        [(''type'', PStr ''FunctionCallRequest''), (''function_name'', PStr ''get_weather''),
         (''function_call_id'', PStr ''call-7''), (''input'', PDict [])]))\<rparr>"
       and message = "''request''"
       and kvs = "[(''type'', PStr ''FunctionCallRequest''), (''function_name'', PStr ''get_weather''),
          (''function_call_id'', PStr ''call-7''), (''input'', PDict [])]"
       and name = "''get_weather''" and s = VoiceAgent_init]
  by (simp add: example_env_def VoiceAgent_init_def)

section \<open>Properties of the call-termination sequence\<close>











lemma nxt_run: "m s = (Inr (), s') \<Longrightarrow> nxt m k s = k s'"
  by (simp add: nxt_def bnd_def)

lemma bnd_run: "m s = (Inr x, s') \<Longrightarrow> bnd m f s = f x s'"
  by (simp add: bnd_def)

lemma bnd_raise: "m s = (Inl e, s') \<Longrightarrow> bnd m f s = (Inl e, s')"
  by (simp add: bnd_def)

lemma nxt_raise: "m s = (Inl e, s') \<Longrightarrow> nxt m k s = (Inl e, s')"
  by (simp add: nxt_def bnd_def)

lemma inject_agent_message_ok:
  "serializable im \<Longrightarrow> send_ok E (sends t) \<Longrightarrow>
   inject_agent_message E im t
   = (Inr (),
      t\<lparr>sends := Suc (sends t),
        trace := trace t @ [Log (Info_Inject (json_text E im)), Sent (json_text E im)]\<rparr>)"
  by (simp add: inject_agent_message_def json_dumps_def ws_send_def act_defs)











section \<open>One response for each function call\<close>

text \<open>The farewell wait raises when a text frame after the request is JSON but not an
  object: \<^verbatim>\<open>message_json.get\<close> fails, and only \<^verbatim>\<open>JSONDecodeError\<close> is caught there.
  The exception reaches the \<^verbatim>\<open>except Exception\<close> of the function call, after the response
  of the call has been sent.\<close>

lemma wait_speaking_started_raises:
  assumes "json_parse E m = Some j"
    and "speaking_started j im = Inl e"
    and "inbox t = InText m # rest"
  shows "wait_speaking_started E im t
         = (Inl e, t\<lparr>inbox := rest,
                      trace := trace t @ [Recv (InText m), Log (Info_Server m)]\<rparr>)"
  using assms
  by (subst wait_speaking_started.simps)
     (simp add: ws_recv_def json_loads_def logger_def emit_def upd_def)

lemma farewell_raises:
  assumes "serializable im" and "send_ok E (sends t)"
    and "json_parse E m = Some j" and "speaking_started j im = Inl e"
    and "inbox t = InText m # rest"
  shows "wait_for_farewell_completion E im t
         = (Inl e,
            t\<lparr>sends := Suc (sends t), inbox := rest,
              trace := trace t
                @ [Log (Info_Inject (json_text E im)), Sent (json_text E im),
                   Recv (InText m), Log (Info_Server m)]\<rparr>)"
proof -
  let ?t1 = "t\<lparr>sends := Suc (sends t),
               trace := trace t @ [Log (Info_Inject (json_text E im)), Sent (json_text E im)]\<rparr>"
  have a: "inject_agent_message E im t = (Inr (), ?t1)"
    using assms(1,2) by (rule inject_agent_message_ok)
  have b: "wait_speaking_started E im ?t1
           = (Inl e, ?t1\<lparr>inbox := rest,
                        trace := trace ?t1 @ [Recv (InText m), Log (Info_Server m)]\<rparr>)"
    using assms(3,4) by (rule wait_speaking_started_raises) (simp add: assms(5))
  have "wait_for_farewell_completion E im t
        = nxt (wait_speaking_started E im) (nxt (wait_audio_done E) (emit (Slept 3.5))) ?t1"
    unfolding wait_for_farewell_completion_def
    by (rule nxt_run [where m = "inject_agent_message E im", OF a])
  also have "\<dots> = (Inl e, ?t1\<lparr>inbox := rest,
                        trace := trace ?t1 @ [Recv (InText m), Log (Info_Server m)]\<rparr>)"
    by (rule nxt_raise [where m = "wait_speaking_started E im", OF b])
  finally show ?thesis by simp
qed

lemma end_call_second_response:
  assumes "json_parse E message = Some (PDict kvs)"
    and "serializable (PDict kvs)"
    and "map_of kvs ''type'' = Some (PStr ''FunctionCallRequest'')"
    and "map_of kvs ''function_name'' = Some (PStr ''end_call'')"
    and "FUNCTION_MAP E ''end_call'' = Some func"
    and "func (case map_of kvs ''input'' of Some v \<Rightarrow> v | None \<Rightarrow> PDict []) = Inr result"
    and "py_getitem result ''inject_message'' = Inr inject_message"
    and "py_getitem result ''function_response'' = Inr function_response"
    and "py_getitem result ''close_message'' = Inr close_message"
    and "serializable function_response" and "serializable inject_message"
    and "send_ok E (sends s)" and "send_ok E (Suc (sends s))"
    and "send_ok E (Suc (Suc (sends s)))"
    and "inbox s = InText m # rest"
    and "json_parse E m = Some j" and "speaking_started j inject_message = Inl e"
  shows "receiver_message E (InText message) s
         = (Inr Fallthrough,
            s\<lparr>inbox := rest,
              trace := trace s
                @ [Log (Info_Server message),
                   Log (Info_FunctionCallReceived (PStr ''end_call'')),
                   Log (Info_Parameters
                          (case map_of kvs ''input'' of Some v \<Rightarrow> v | None \<Rightarrow> PDict [])),
                   Sent (json_text E
                           (PDict [(''type'', PStr ''FunctionCallResponse''),
                                       (''function_call_id'', (case map_of kvs ''function_call_id''
                                            of Some v \<Rightarrow> v | None \<Rightarrow> PNone)),
                                       (''output'', PStr (json_text E function_response))])),
                   Log (Info_ResponseSent function_response),
                   Log (Info_Inject (json_text E inject_message)),
                   Sent (json_text E inject_message),
                   Recv (InText m), Log (Info_Server m),
                   Log (Error_ExecutingFunction (exn_str e)),
                   Sent (json_text E
                           (PDict [(''type'', PStr ''FunctionCallResponse''),
                                       (''function_call_id'', (case map_of kvs ''function_call_id''
                                            of Some v \<Rightarrow> v | None \<Rightarrow> PNone)),
                                       (''output'',
                                          PStr (json_text E (PDict [(''error'', PStr (exn_str e))])))]))],
              ticks := Suc (Suc (Suc (ticks s))),
              sends := Suc (Suc (Suc (sends s))),
              last_function_response_time := Some (clock E (Suc (Suc (ticks s))))\<rparr>)"
proof -
  define fid where "fid = (case map_of kvs ''function_call_id'' of Some v \<Rightarrow> v | None \<Rightarrow> PNone)"
  define params where "params = (case map_of kvs ''input'' of Some v \<Rightarrow> v | None \<Rightarrow> PDict [])"
  define resp where "resp = Sent (json_text E (PDict [(''type'', PStr ''FunctionCallResponse''),
              (''function_call_id'', fid),
              (''output'', PStr (json_text E function_response))]))"
  define err where "err = exn_str e"
  define resp' where
    "resp' = Sent (json_text E (PDict [(''type'', PStr ''FunctionCallResponse''),
                (''function_call_id'', fid),
                (''output'',
                   PStr (json_text E (PDict [(''error'', PStr err)])))]))"
  have ser: "serializable fid"
    unfolding fid_def using assms(2) by (rule serializable_field)
  have get: "py_get (PDict kvs) ''type'' PNone = Inr (PStr ''FunctionCallRequest'')"
    "py_get (PDict kvs) ''function_name'' PNone = Inr (PStr ''end_call'')"
    "py_get (PDict kvs) ''function_call_id'' PNone = Inr fid"
    "py_get (PDict kvs) ''input'' (PDict []) = Inr params"
    using assms(3,4) by (simp_all add: py_get_def fid_def params_def)
  have look: "lookup_function E (PStr ''end_call'') = Inr func"
    using assms(5) by (simp add: lookup_function_def)
  have call: "func params = Inr result"
    using assms(6) by (simp add: params_def)
  have send: "send_response E fid function_response t
     = (Inr (), t\<lparr>sends := Suc (sends t), trace := trace t @ [resp]\<rparr>)"
    if "send_ok E (sends t)" for t
    unfolding resp_def using assms(10) ser that by (rule send_response_ok)
  have send': "send_response E fid (PDict [(''error'', PStr err)]) t
     = (Inr (), t\<lparr>sends := Suc (sends t), trace := trace t @ [resp']\<rparr>)"
    if "send_ok E (sends t)" for t
    unfolding resp'_def using ser that by (intro send_response_ok) simp_all
  have wait: "wait_for_farewell_completion E inject_message t
         = (Inl e,
            t\<lparr>sends := Suc (sends t), inbox := rest,
              trace := trace t
                @ [Log (Info_Inject (json_text E inject_message)), Sent (json_text E inject_message),
                   Recv (InText m), Log (Info_Server m)]\<rparr>)"
    if "send_ok E (sends t)" "inbox t = inbox s" for t
    using assms(11) that(1) assms(16,17)
    by (rule farewell_raises) (simp add: that assms(15))
  have disp: "dispatch_function E (PStr ''end_call'') fid params t0 t
     = (Inl e,
        t\<lparr>inbox := rest,
          trace := trace t
            @ [resp, Log (Info_ResponseSent function_response),
               Log (Info_Inject (json_text E inject_message)), Sent (json_text E inject_message),
               Recv (InText m), Log (Info_Server m)],
          ticks := Suc (ticks t), sends := Suc (Suc (sends t)),
          last_function_response_time := Some (clock E (ticks t))\<rparr>)"
    if "send_ok E (sends t)" "send_ok E (Suc (sends t))" "inbox t = inbox s" for t0 t
    using that
    by (simp add: dispatch_function_def look call assms(7,8,9) send wait act_defs)
  have req: "on_FunctionCallRequest E (PDict kvs) t
     = (Inr Fallthrough,
        t\<lparr>inbox := rest,
          trace := trace t
            @ [Log (Info_FunctionCallReceived (PStr ''end_call'')), Log (Info_Parameters params),
               resp, Log (Info_ResponseSent function_response),
               Log (Info_Inject (json_text E inject_message)), Sent (json_text E inject_message),
               Recv (InText m), Log (Info_Server m),
               Log (Error_ExecutingFunction err), resp'],
          ticks := Suc (Suc (ticks t)), sends := Suc (Suc (Suc (sends t))),
          last_function_response_time := Some (clock E (Suc (ticks t)))\<rparr>)"
    if "send_ok E (sends t)" "send_ok E (Suc (sends t))" "send_ok E (Suc (Suc (sends t)))"
      "inbox t = inbox s" for t
    using that
    by (simp add: on_FunctionCallRequest_def get disp send' act_defs err_def [symmetric])
  have "receiver_message E (InText message) s
     = (Inr Fallthrough,
        s\<lparr>inbox := rest,
          trace := trace s
            @ [Log (Info_Server message),
               Log (Info_FunctionCallReceived (PStr ''end_call'')), Log (Info_Parameters params),
               resp, Log (Info_ResponseSent function_response),
               Log (Info_Inject (json_text E inject_message)), Sent (json_text E inject_message),
               Recv (InText m), Log (Info_Server m),
               Log (Error_ExecutingFunction err), resp'],
          ticks := Suc (Suc (Suc (ticks s))), sends := Suc (Suc (Suc (sends s))),
          last_function_response_time := Some (clock E (Suc (Suc (ticks s))))\<rparr>)"
    using assms(1,12,13,14)
    by (simp add: receiver_message_def receiver_text_def json_loads_def get req act_defs)
  then show ?thesis
    unfolding fid_def params_def resp_def resp'_def err_def .
qed

lemma receiver_loop_end:
  "inbox s = [] \<Longrightarrow> close_ok E \<Longrightarrow> receiver_loop E s = (Inr (), s)"
  by (simp add: receiver_loop.simps [of E s])

lemma receiver_completes:
  assumes "audio_open_result E = None"
    and "receiver_loop E
           (s\<lparr>last_user_message := None, last_function_response_time := None,
              in_function_chain := False,
              speaker := \<lparr>sp_queue = Some [], sp_stream = Some [], sp_thread = Some True,
                           sp_stop = Some False\<rparr>\<rparr>) = (Inr (), s')"
  shows "receiver E s = (Inr (), s'\<lparr>speaker := Speaker_exit (speaker s')\<rparr>)"
  using assms
  by (simp add: receiver_def receiver_scope_def Speaker_enter_def Speaker_init_def act_defs)

text \<open>
  Claim C1 asks for exactly one \<^verbatim>\<open>FunctionCallResponse\<close> for each call.  The receiver
  breaks this: it is given an \<^verbatim>\<open>end_call\<close> request with the call id \<^verbatim>\<open>call-1\<close>, whose
  handler succeeds, followed by the text frame \<^verbatim>\<open>[]\<close>.  It sends the response of the
  call, the farewell message, and then a second response with the same call id that
  carries the error raised on the frame; the task ends normally, and the session
  stays marked as running.
\<close>

theorem end_call_sends_two_responses:
  "fst (receiver farewell_env
          (VoiceAgent_init\<lparr>inbox := [InText ''end call request'', InText ''[]'']\<rparr>)) = Inr ()
   \<and> sent_texts (trace (snd (receiver farewell_env
          (VoiceAgent_init\<lparr>inbox := [InText ''end call request'', InText ''[]'']\<rparr>))))
     = [show_json (PDict [(''type'', PStr ''FunctionCallResponse''),
                          (''function_call_id'', PStr ''call-1''),
                          (''output'',
                             PStr (show_json (PDict [(''status'', PStr ''closing'')])))]),
        show_json (PDict [(''type'', PStr ''InjectAgentMessage''),
                          (''message'', PStr ''Goodbye!'')]),
        show_json (PDict [(''type'', PStr ''FunctionCallResponse''),
                          (''function_call_id'', PStr ''call-1''),
                          (''output'',
                             PStr (show_json
                                     (PDict [(''error'',
                                              PStr (quote ''list''
                                                    @ '' object has no attribute ''
                                                    @ quote ''get''))])))])]
   \<and> is_running (snd (receiver farewell_env
          (VoiceAgent_init\<lparr>is_running := True,
             inbox := [InText ''end call request'', InText ''[]'']\<rparr>))) = True"
proof -
  define opened where
    "opened = \<lparr>sp_queue = Some [], sp_stream = Some ([] :: bytes list), sp_thread = Some True,
               sp_stop = Some False\<rparr>"
  define err where "err = quote ''list'' @ '' object has no attribute '' @ quote ''get''"
  define tr where
    "tr = [Recv (InText ''end call request''),
           Log (Info_Server ''end call request''),
           Log (Info_FunctionCallReceived (PStr ''end_call'')),
           Log (Info_Parameters (PDict [(''farewell_type'', PStr ''general'')])),
           Sent (show_json (PDict [(''type'', PStr ''FunctionCallResponse''),
                       (''function_call_id'', (PStr ''call-1'')),
                       (''output'', PStr (show_json (PDict [(''status'', PStr ''closing'')])))])),
           Log (Info_ResponseSent (PDict [(''status'', PStr ''closing'')])),
           Log (Info_Inject (show_json (PDict [(''type'', PStr ''InjectAgentMessage''),
                                               (''message'', PStr ''Goodbye!'')]))),
           Sent (show_json (PDict [(''type'', PStr ''InjectAgentMessage''),
                                   (''message'', PStr ''Goodbye!'')])),
           Recv (InText ''[]''), Log (Info_Server ''[]''),
           Log (Error_ExecutingFunction err),
           Sent (show_json (PDict [(''type'', PStr ''FunctionCallResponse''),
                       (''function_call_id'', (PStr ''call-1'')),
                       (''output'',
                          PStr (show_json (PDict [(''error'', PStr err)])))]))]"
  have run: "receiver farewell_env
               (VoiceAgent_init\<lparr>is_running := b,
                  inbox := [InText ''end call request'', InText ''[]'']\<rparr>)
             = (Inr (),
                VoiceAgent_init\<lparr>is_running := b, inbox := [], trace := tr,
                  speaker := Speaker_exit opened, ticks := 3, sends := 3,
                  last_function_response_time := Some 1002\<rparr>)" for b
  proof -
    let ?s0 = "VoiceAgent_init\<lparr>is_running := b,
                 inbox := [InText ''end call request'', InText ''[]'']\<rparr>"
    let ?s1 = "?s0\<lparr>last_user_message := None, last_function_response_time := None,
                 in_function_chain := False,
                 speaker := \<lparr>sp_queue = Some [], sp_stream = Some [], sp_thread = Some True,
                              sp_stop = Some False\<rparr>\<rparr>"
    let ?s2 = "?s1\<lparr>inbox := [InText ''[]''],
                 trace := trace ?s1 @ [Recv (InText ''end call request'')]\<rparr>"
    let ?s3 = "VoiceAgent_init\<lparr>is_running := b, inbox := [], trace := tr,
                 speaker := opened, ticks := 3, sends := 3,
                 last_function_response_time := Some 1002\<rparr>"
    have inst: "receiver_message farewell_env (InText ''end call request'') ?s2
         = (Inr Fallthrough,
            ?s2\<lparr>inbox := [],
              trace := trace ?s2
                @ [Log (Info_Server ''end call request''),
                   Log (Info_FunctionCallReceived (PStr ''end_call'')),
                   Log (Info_Parameters
                          (case map_of [(''type'', PStr ''FunctionCallRequest''),
                       (''function_name'', PStr ''end_call''),
                       (''function_call_id'', PStr ''call-1''),
                       (''input'', PDict [(''farewell_type'', PStr ''general'')])] ''input'' of Some v \<Rightarrow> v | None \<Rightarrow> PDict [])),
                   Sent (json_text farewell_env
                           (PDict [(''type'', PStr ''FunctionCallResponse''),
                                       (''function_call_id'', (case map_of [(''type'', PStr ''FunctionCallRequest''), (''function_name'', PStr ''end_call''), (''function_call_id'', PStr ''call-1''), (''input'', PDict [(''farewell_type'', PStr ''general'')])] ''function_call_id''
                                            of Some v \<Rightarrow> v | None \<Rightarrow> PNone)),
                                       (''output'', PStr (json_text farewell_env (PDict [(''status'', PStr ''closing'')])))])),
                   Log (Info_ResponseSent (PDict [(''status'', PStr ''closing'')])),
                   Log (Info_Inject (json_text farewell_env (PDict [(''type'', PStr ''InjectAgentMessage''), (''message'', PStr ''Goodbye!'')]))),
                   Sent (json_text farewell_env (PDict [(''type'', PStr ''InjectAgentMessage''), (''message'', PStr ''Goodbye!'')])),
                   Recv (InText ''[]''), Log (Info_Server ''[]''),
                   Log (Error_ExecutingFunction (exn_str (Exn ''AttributeError'' err))),
                   Sent (json_text farewell_env
                           (PDict [(''type'', PStr ''FunctionCallResponse''),
                                       (''function_call_id'', (case map_of [(''type'', PStr ''FunctionCallRequest''), (''function_name'', PStr ''end_call''), (''function_call_id'', PStr ''call-1''), (''input'', PDict [(''farewell_type'', PStr ''general'')])] ''function_call_id''
                                            of Some v \<Rightarrow> v | None \<Rightarrow> PNone)),
                                       (''output'',
                                          PStr (json_text farewell_env (PDict [(''error'', PStr (exn_str (Exn ''AttributeError'' err)))])))]))],
              ticks := Suc (Suc (Suc (ticks ?s2))),
              sends := Suc (Suc (Suc (sends ?s2))),
              last_function_response_time := Some (clock farewell_env (Suc (Suc (ticks ?s2))))\<rparr>)"
      by (rule end_call_second_response
        [where func = example_end_call
           and result = "PDict
             [(''function_response'', PDict [(''status'', PStr ''closing'')]),
              (''inject_message'',
                 PDict [(''type'', PStr ''InjectAgentMessage''), (''message'', PStr ''Goodbye!'')]),
              (''close_message'', PDict [(''type'', PStr ''close'')])]"
           and close_message = "PDict [(''type'', PStr ''close'')]"
           and j = "PList []"])
         (simp_all add: farewell_env_def example_env_def example_end_call_def VoiceAgent_init_def
            py_getitem_def speaking_started_def py_get_def err_def)
    have body: "receiver_message farewell_env (InText ''end call request'') ?s2 = (Inr Fallthrough, ?s3)"
      by (subst inst)
         (simp add: farewell_env_def example_env_def VoiceAgent_init_def tr_def err_def opened_def)
    have "receiver_loop farewell_env ?s1 = receiver_loop farewell_env ?s3"
      by (rule receiver_loop_step [where ms = "[InText ''[]'']", OF body]) simp
    also have "\<dots> = (Inr (), ?s3)"
      by (rule receiver_loop_end) (simp_all add: farewell_env_def example_env_def)
    finally have loop: "receiver_loop farewell_env ?s1 = (Inr (), ?s3)" .
    have "audio_open_result farewell_env = None"
      by (simp add: farewell_env_def example_env_def)
    then have "receiver farewell_env ?s0 = (Inr (), ?s3\<lparr>speaker := Speaker_exit (speaker ?s3)\<rparr>)"
      using loop by (rule receiver_completes)
    then show ?thesis by simp
  qed
  have init: "VoiceAgent_init\<lparr>is_running := False,
                inbox := [InText ''end call request'', InText ''[]'']\<rparr>
              = VoiceAgent_init\<lparr>inbox := [InText ''end call request'', InText ''[]'']\<rparr>"
    by (simp add: VoiceAgent_init_def)
  show ?thesis
    using run [of False] run [of True]
    by (simp add: init sent_texts_def tr_def err_def)
qed

end
